theory Spec2Isabelle
  imports Main
begin

section \<open>Strings as the label engine uses them\<close>

text \<open>
  The label engine (\<^verbatim>\<open>app.js\<close>, class \<^verbatim>\<open>LabelManager\<close>) is text processing on
  JavaScript strings. A string is modelled as a \<^typ>\<open>string\<close>, one \<^typ>\<open>char\<close> per
  character, which covers the code points below 256. The white space of
  \<^verbatim>\<open>String.prototype.trim\<close> and of the regular expression class \<^verbatim>\<open>\s\<close> in that
  range is tab, line feed, vertical tab, form feed, carriage return, space and the
  no-break space.
\<close>

definition isWhiteSpace :: "char \<Rightarrow> bool" where
  "isWhiteSpace c \<longleftrightarrow>
     c = CHR 0x09 \<or> c = CHR 0x0A \<or> c = CHR 0x0B \<or> c = CHR 0x0C \<or> c = CHR 0x0D \<or>
     c = CHR 0x20 \<or> c = CHR 0xA0"

text \<open>\<^verbatim>\<open>s.trim()\<close>: white space removed from both ends.\<close>

definition trim :: "string \<Rightarrow> string" where
  "trim s = rev (dropWhile isWhiteSpace (rev (dropWhile isWhiteSpace s)))"

text \<open>\<^verbatim>\<open>xs.join(sep)\<close> on an array of strings.\<close>

fun join :: "string \<Rightarrow> string list \<Rightarrow> string" where
  "join sep [] = []"
| "join sep [x] = x"
| "join sep (x # y # ys) = x @ sep @ join sep (y # ys)"

text \<open>
  \<^verbatim>\<open>s.split(",")\<close> for a one-character separator: the pieces between the separators,
  so that a string without separator (also the empty one) gives one piece.
\<close>

fun split_on :: "char \<Rightarrow> string \<Rightarrow> string list" where
  "split_on sep [] = [[]]"
| "split_on sep (c # cs) =
     (if c = sep then [] # split_on sep cs
      else (case split_on sep cs of
              [] \<Rightarrow> [[c]]
            | piece # pieces \<Rightarrow> (c # piece) # pieces))"

text \<open>
  \<^verbatim>\<open>s.indexOf(c)\<close>: the position of the first occurrence, \<open>-1\<close> when there is none;
  \<^verbatim>\<open>s.substring(a, b)\<close> and \<^verbatim>\<open>s.substring(a)\<close> for \<open>0 \<le> a \<le> b \<le> length s\<close>, the only
  way the engine calls them.
\<close>

fun indexOf :: "string \<Rightarrow> char \<Rightarrow> int" where
  "indexOf [] ch = -1"
| "indexOf (c # cs) ch =
     (if c = ch then 0
      else (let i = indexOf cs ch in if i < 0 then -1 else i + 1))"

definition substring :: "string \<Rightarrow> int \<Rightarrow> int \<Rightarrow> string" where
  "substring s a b = take (nat b - nat a) (drop (nat a) s)"

definition substring_from :: "string \<Rightarrow> int \<Rightarrow> string" where
  "substring_from s a = drop (nat a) s"

text \<open>
  \<^verbatim>\<open>escapeHtml\<close> assigns the text to \<^verbatim>\<open>textContent\<close> of a fresh \<^verbatim>\<open>div\<close> and reads
  \<^verbatim>\<open>innerHTML\<close> back. The browser serialises a text node by replacing \<^verbatim>\<open>&\<close>, the
  no-break space, \<^verbatim>\<open><\<close> and \<^verbatim>\<open>>\<close> by their character references and leaving every
  other character as it is.
\<close>

definition escapeChar :: "char \<Rightarrow> string" where
  "escapeChar c =
     (if c = CHR ''&'' then ''&amp;''
      else if c = CHR 0xA0 then ''&nbsp;''
      else if c = CHR ''<'' then ''&lt;''
      else if c = CHR ''>'' then ''&gt;''
      else [c])"

definition escapeHtml :: "string \<Rightarrow> string" where
  "escapeHtml text = concat (map escapeChar text)"

section \<open>Parenthesis-aware splitting of an ingredient expression\<close>

text \<open>
  The first half of \<^verbatim>\<open>formatIngredientsWithBoldPresetNames\<close> (the spec's
  \<^verbatim>\<open>splitTopLevel\<close>) walks over the characters with three variables: the items
  pushed so far, the item being read, and the running parenthesis depth.
  \<^verbatim>\<open>
  for (const char of text) {
    if (char === "(") parenDepth++;
    if (char === ")") parenDepth--;
    if (char === "," && parenDepth === 0) { parts.push(current.trim()); current = ""; }
    else { current += char; }
  }
  if (current.trim()) parts.push(current.trim());
  \<close>
\<close>

record split_state =
  parts :: "string list"
  current :: string
  parenDepth :: int

definition split_init :: split_state where
  "split_init = \<lparr>parts = [], current = [], parenDepth = 0\<rparr>"

definition split_step :: "split_state \<Rightarrow> char \<Rightarrow> split_state" where
  "split_step st ch =
     (let d1 = (if ch = CHR ''('' then parenDepth st + 1 else parenDepth st);
          d2 = (if ch = CHR '')'' then d1 - 1 else d1)
      in if ch = CHR '','' \<and> d2 = 0
         then \<lparr>parts = parts st @ [trim (current st)], current = [], parenDepth = d2\<rparr>
         else \<lparr>parts = parts st, current = current st @ [ch], parenDepth = d2\<rparr>)"

definition split_finish :: "split_state \<Rightarrow> string list" where
  "split_finish st =
     (if trim (current st) \<noteq> [] then parts st @ [trim (current st)] else parts st)"

definition splitTopLevel :: "string \<Rightarrow> string list" where
  "splitTopLevel text = split_finish (foldl split_step split_init text)"

section \<open>Bold preset names\<close>

text \<open>
  The second half of \<^verbatim>\<open>formatIngredientsWithBoldPresetNames\<close> (the spec's
  \<^verbatim>\<open>boldPresetNames\<close>) formats every item and joins the results.
  \<^verbatim>\<open>
  const parenIndex = part.indexOf("(");
  if (parenIndex > 0) {
    const name = part.substring(0, parenIndex).trim();
    const rest = part.substring(parenIndex);
    return `<strong>${this.escapeHtml(name)}</strong> ${rest}`;
  }
  return `<strong>${this.escapeHtml(part)}</strong>`;
  \<close>
\<close>

definition formatPart :: "string \<Rightarrow> string" where
  "formatPart part =
     (let parenIndex = indexOf part (CHR ''('')
      in if parenIndex > 0
         then (let name = trim (substring part 0 parenIndex);
                   rest = substring_from part parenIndex
               in ''<strong>'' @ escapeHtml name @ ''</strong> '' @ rest)
         else ''<strong>'' @ escapeHtml part @ ''</strong>'')"

definition formatIngredientsWithBoldPresetNames :: "string \<Rightarrow> string" where
  "formatIngredientsWithBoldPresetNames text =
     (if text = [] then []
      else join '', '' (map formatPart (splitTopLevel text)))"

text \<open>
  What the spec says of one item, in its words: where a \<^verbatim>\<open>(\<close> is present only the
  substring before the first one is emphasised, with escaping, and the substring from
  it on is left as it is; an item without \<^verbatim>\<open>(\<close> is emphasised in full.
\<close>

definition emphasised :: "string \<Rightarrow> string" where
  "emphasised s = ''<strong>'' @ escapeHtml s @ ''</strong>''"

definition spec_beforeParen :: "string \<Rightarrow> string" where
  "spec_beforeParen item = takeWhile (\<lambda>c. c \<noteq> CHR ''('') item"

definition spec_fromParen :: "string \<Rightarrow> string" where
  "spec_fromParen item = dropWhile (\<lambda>c. c \<noteq> CHR ''('') item"

text \<open>\<open>isSubstring u s\<close>: \<open>u\<close> occurs in \<open>s\<close> as a run of consecutive characters.\<close>

fun isPrefix :: "string \<Rightarrow> string \<Rightarrow> bool" where
  "isPrefix [] s = True"
| "isPrefix (u # us) [] = False"
| "isPrefix (u # us) (c # cs) = (u = c \<and> isPrefix us cs)"

fun isSubstring :: "string \<Rightarrow> string \<Rightarrow> bool" where
  "isSubstring u [] = isPrefix u []"
| "isSubstring u (c # cs) = (isPrefix u (c # cs) \<or> isSubstring u cs)"

section \<open>Aggregation of presets and additional ingredients\<close>

text \<open>
  A preset of the ingredient library; \<open>p_id\<close> and \<open>p_name\<close> are its properties \<^verbatim>\<open>id\<close>
  and \<^verbatim>\<open>name\<close>. \<^verbatim>\<open>brandName\<close> is optional. \<^verbatim>\<open>ingredients\<close> is always an array (the
  server stores \<^verbatim>\<open>input.ingredients || []\<close>), empty for a single ingredient, whose own
  name is then the ingredient; the test \<^verbatim>\<open>preset.ingredients && preset.ingredients.length > 0\<close>
  of the source is the test that the list is not empty.
\<close>

record Preset =
  p_id :: string
  p_name :: string
  brandName :: "string option"
  ingredients :: "string list"

text \<open>\<^verbatim>\<open>getPresetById\<close>: \<^verbatim>\<open>this.presets.find((preset) => preset.id === id)\<close>.\<close>

definition getPresetById :: "Preset list \<Rightarrow> string \<Rightarrow> Preset option" where
  "getPresetById presets ident = List.find (\<lambda>preset. p_id preset = ident) presets"

text \<open>
  \<^verbatim>\<open>parseIngredients\<close>: nothing for a blank text, else the pieces between commas, each
  trimmed, the empty ones removed.
\<close>

definition parseIngredients :: "string \<Rightarrow> string list" where
  "parseIngredients text =
     (if text = [] \<or> trim text = [] then []
      else filter (\<lambda>ingredient. length ingredient > 0) (map trim (split_on (CHR '','') text)))"

text \<open>
  \<^verbatim>\<open>collectAllIngredients\<close> and \<^verbatim>\<open>buildFormattedLabelText\<close> read the selected preset
  ids (the checked boxes, in document order) and the text of the additional-ingredients
  field; both are arguments here, with the preset library \<^verbatim>\<open>this.presets\<close>. Each
  \<^verbatim>\<open>forEach\<close> pushes onto an array, which the step functions return extended; an id
  with no preset in the library is skipped.
\<close>

definition collect_step :: "Preset list \<Rightarrow> string list \<Rightarrow> string \<Rightarrow> string list" where
  "collect_step presets allIngredients presetId =
     (case getPresetById presets presetId of
        None \<Rightarrow> allIngredients
      | Some preset \<Rightarrow>
          if length (ingredients preset) > 0 then allIngredients @ ingredients preset
          else allIngredients @ [p_name preset])"

definition collectAllIngredients :: "Preset list \<Rightarrow> string list \<Rightarrow> string \<Rightarrow> string list" where
  "collectAllIngredients presets selectedPresetIds additionalValue =
     (let allIngredients = foldl (collect_step presets) [] selectedPresetIds;
          additionalText = trim additionalValue
      in if additionalText \<noteq> [] then allIngredients @ parseIngredients additionalText
         else allIngredients)"

definition format_step :: "Preset list \<Rightarrow> string list \<Rightarrow> string \<Rightarrow> string list" where
  "format_step presets acc presetId =
     (case getPresetById presets presetId of
        None \<Rightarrow> acc
      | Some preset \<Rightarrow>
          if length (ingredients preset) > 0
          then (let ingredientsList = join '', '' (ingredients preset)
                in acc @ [p_name preset @ '' ('' @ ingredientsList @ '')''])
          else acc @ [p_name preset])"

definition buildFormattedLabelText :: "Preset list \<Rightarrow> string list \<Rightarrow> string \<Rightarrow> string" where
  "buildFormattedLabelText presets selectedPresetIds additionalValue =
     (let acc = foldl (format_step presets) [] selectedPresetIds;
          additionalText = trim additionalValue
      in join '', '' (if additionalText \<noteq> [] then acc @ parseIngredients additionalText
                     else acc))"

text \<open>
  The aggregation in the spec's words: the selected presets are the presets found for
  the ids, in selection order; a preset with sub-ingredients gives the item
  \<^verbatim>\<open>name (sub1, sub2, ...)\<close> and its sub-ingredients, one without gives its name to
  both; the tokens of the additional text are its comma-separated pieces, trimmed, the
  empty ones left out.
\<close>

definition spec_selected :: "Preset list \<Rightarrow> string list \<Rightarrow> Preset list" where
  "spec_selected presets ids = List.map_filter (getPresetById presets) ids"

definition spec_expressionItem :: "Preset \<Rightarrow> string" where
  "spec_expressionItem preset =
     (if ingredients preset = [] then p_name preset
      else p_name preset @ '' ('' @ join '', '' (ingredients preset) @ '')'')"

definition spec_flatItems :: "Preset \<Rightarrow> string list" where
  "spec_flatItems preset =
     (if ingredients preset = [] then [p_name preset] else ingredients preset)"

definition spec_tokens :: "string \<Rightarrow> string list" where
  "spec_tokens additional = filter (\<lambda>t. t \<noteq> []) (map trim (split_on (CHR '','') additional))"


section \<open>Identifier resolution\<close>

text \<open>
  \<^verbatim>\<open>getPresetQuery\<close> (the spec's \<^verbatim>\<open>resolveLookup\<close>) asks the MongoDB driver whether the
  identifier is an \<^verbatim>\<open>ObjectId\<close> and whether it prints back as itself.
  \<^verbatim>\<open>
  function getPresetQuery(id) {
    try {
      if (ObjectId.isValid(id) && new ObjectId(id).toString() === id) {
        return { _id: new ObjectId(id) };
      }
    } catch { }
    return { id: id };
  }
  \<close>
\<close>

text \<open>
  Modelled from the spec: \<^verbatim>\<open>ObjectId\<close> belongs to the MongoDB driver, which is not part
  of the source. The spec calls a store-generated identifier a fixed-length hexadecimal
  string in the canonical format of the id scheme, and the source comment says 24
  hexadecimal characters. An \<^verbatim>\<open>ObjectId\<close> is twelve bytes; the constructor reads a
  string of 24 hexadecimal digits of either case, two digits a byte, and throws on
  another string; \<^verbatim>\<open>toString\<close> prints the bytes as 24 lower-case hexadecimal digits.
  Older drivers also take a string of 12 characters as the twelve bytes themselves; the
  flag \<open>legacy12\<close> chooses that behaviour, and the results below hold for both.
\<close>

definition hexDigitValue :: "char \<Rightarrow> nat option" where
  "hexDigitValue c =
     map_of [(CHR ''0'', 0), (CHR ''1'', 1), (CHR ''2'', 2), (CHR ''3'', 3), (CHR ''4'', 4),
             (CHR ''5'', 5), (CHR ''6'', 6), (CHR ''7'', 7), (CHR ''8'', 8), (CHR ''9'', 9),
             (CHR ''a'', 10), (CHR ''b'', 11), (CHR ''c'', 12), (CHR ''d'', 13),
             (CHR ''e'', 14), (CHR ''f'', 15),
             (CHR ''A'', 10), (CHR ''B'', 11), (CHR ''C'', 12), (CHR ''D'', 13),
             (CHR ''E'', 14), (CHR ''F'', 15)] c"

definition isHexDigit :: "char \<Rightarrow> bool" where
  "isHexDigit c \<longleftrightarrow> hexDigitValue c \<noteq> None"

definition isLowerHexDigit :: "char \<Rightarrow> bool" where
  "isLowerHexDigit c \<longleftrightarrow> c \<in> set ''0123456789abcdef''"

fun fromHex :: "string \<Rightarrow> nat list" where
  "fromHex (a # b # cs) =
     (16 * (case hexDigitValue a of Some v \<Rightarrow> v | None \<Rightarrow> 0)
         + (case hexDigitValue b of Some v \<Rightarrow> v | None \<Rightarrow> 0)) # fromHex cs"
| "fromHex cs = []"

definition hexChar :: "nat \<Rightarrow> char" where
  "hexChar n = ''0123456789abcdef'' ! (n mod 16)"

definition toHexString :: "nat list \<Rightarrow> string" where
  "toHexString bs = concat (map (\<lambda>b. [hexChar (b div 16), hexChar (b mod 16)]) bs)"

datatype ObjectId = ObjectId (bytes: "nat list")

text \<open>\<^verbatim>\<open>new ObjectId(s)\<close> for a string; \<open>None\<close> where the constructor throws.\<close>

definition newObjectId :: "bool \<Rightarrow> string \<Rightarrow> ObjectId option" where
  "newObjectId legacy12 s =
     (if length s = 24 \<and> list_all isHexDigit s then Some (ObjectId (fromHex s))
      else if legacy12 \<and> length s = 12 \<and> list_all (\<lambda>c. (of_char c :: nat) < 128) s
           then Some (ObjectId (map of_char s))
      else None)"

definition ObjectId_isValid :: "bool \<Rightarrow> string \<Rightarrow> bool" where
  "ObjectId_isValid legacy12 s \<longleftrightarrow> newObjectId legacy12 s \<noteq> None"

definition ObjectId_toString :: "ObjectId \<Rightarrow> string" where
  "ObjectId_toString oid = toHexString (bytes oid)"

text \<open>
  The two lookups: \<^verbatim>\<open>{ _id: new ObjectId(id) }\<close> on the primary key and \<^verbatim>\<open>{ id: id }\<close> on
  the legacy \<^verbatim>\<open>id\<close> attribute.
\<close>

datatype LookupKey = PrimaryKey ObjectId | LegacyKey string

text \<open>
  What the \<^verbatim>\<open>try\<close> block does: it returns a key, or ends without returning (the test
  failed), or an exception leaves it. The \<^verbatim>\<open>catch\<close> is empty, so the last two both go on
  to the legacy lookup.
\<close>

datatype try_outcome = Returned LookupKey | Completed | Threw

definition getPresetQuery_try :: "bool \<Rightarrow> string \<Rightarrow> try_outcome" where
  "getPresetQuery_try legacy12 ident =
     (if ObjectId_isValid legacy12 ident
      then (case newObjectId legacy12 ident of
              None \<Rightarrow> Threw
            | Some oid \<Rightarrow>
                if ObjectId_toString oid = ident
                then (case newObjectId legacy12 ident of
                        None \<Rightarrow> Threw
                      | Some key \<Rightarrow> Returned (PrimaryKey key))
                else Completed)
      else Completed)"

definition getPresetQuery :: "bool \<Rightarrow> string \<Rightarrow> LookupKey" where
  "getPresetQuery legacy12 ident =
     (case getPresetQuery_try legacy12 ident of
        Returned key \<Rightarrow> key
      | Completed \<Rightarrow> LegacyKey ident
      | Threw \<Rightarrow> LegacyKey ident)"

section \<open>Preset search\<close>

text \<open>
  The handler of \<^verbatim>\<open>GET /api/presets/search\<close> returns every preset for a blank query
  and otherwise hands the trimmed query to the store as a regular expression.
  \<^verbatim>\<open>
  const query = req.query.q || "";
  if (!query.trim()) { ... return res.json(presets.map(stripMongoId)); }
  // Case-insensitive partial match on name, brandName, or ingredients array
  const regex = { $regex: query.trim(), $options: "i" };
  ... find({ $or: [{ name: regex }, { brandName: regex }, { ingredients: regex }] })
  \<close>
\<close>

text \<open>
  The option \<^verbatim>\<open>i\<close> of the store makes the ASCII letters match in either case; the
  search model folds those and leaves every other character as it is.
\<close>

definition toLowerChar :: "char \<Rightarrow> char" where
  "toLowerChar c =
     (case map_of (zip ''ABCDEFGHIJKLMNOPQRSTUVWXYZ'' ''abcdefghijklmnopqrstuvwxyz'') c of
        Some l \<Rightarrow> l
      | None \<Rightarrow> c)"

definition toLowerCase :: "string \<Rightarrow> string" where
  "toLowerCase s = map toLowerChar s"

text \<open>
  The matching of \<^verbatim>\<open>$regex\<close> is done by the document store (MongoDB), which is not part
  of the source; it is modelled from the documented meaning of the operator. The store
  reads the query as a regular expression, and the model covers the patterns made of
  ordinary characters, which stand for themselves in either case under the option
  \<^verbatim>\<open>i\<close>, and of the dot, which stands for any character but a line feed; a match may
  begin anywhere in the field. A pattern with another special character
  (\<^verbatim>\<open>\ ^ $ | ? * + ( ) [ ] { }\<close>) is outside the model, and the search is then \<open>None\<close>.
\<close>

definition rx_special :: "char \<Rightarrow> bool" where
  "rx_special c \<longleftrightarrow> c = CHR 0x5C \<or> c \<in> set ''^$|?*+()[]{}''"

fun rx_here :: "string \<Rightarrow> string \<Rightarrow> bool" where
  "rx_here [] subject = True"
| "rx_here (p # ps) [] = False"
| "rx_here (p # ps) (c # cs) =
     ((if p = CHR ''.'' then c \<noteq> CHR 0x0A else toLowerChar p = toLowerChar c) \<and> rx_here ps cs)"

fun rx_search :: "string \<Rightarrow> string \<Rightarrow> bool" where
  "rx_search pattern [] = rx_here pattern []"
| "rx_search pattern (c # cs) = (rx_here pattern (c # cs) \<or> rx_search pattern cs)"

text \<open>
  One document against \<^verbatim>\<open>$or: [{name: regex}, {brandName: regex}, {ingredients: regex}]\<close>:
  a missing \<^verbatim>\<open>brandName\<close> does not match, and the array matches when an element does.
\<close>

definition regexMatchesPreset :: "string \<Rightarrow> Preset \<Rightarrow> bool" where
  "regexMatchesPreset pattern preset \<longleftrightarrow>
     rx_search pattern (p_name preset)
     \<or> (case brandName preset of None \<Rightarrow> False | Some b \<Rightarrow> rx_search pattern b)
     \<or> list_ex (rx_search pattern) (ingredients preset)"

definition searchPresets :: "Preset list \<Rightarrow> string option \<Rightarrow> Preset list option" where
  "searchPresets collection q =
     (let query = (case q of None \<Rightarrow> [] | Some s \<Rightarrow> s)
      in if trim query = [] then Some collection
         else if list_ex rx_special (trim query) then None
         else Some (filter (regexMatchesPreset (trim query)) collection))"

text \<open>
  The match in the spec's words: the query is, without regard to case, a substring of
  the name, of the brand name when there is one, or of an ingredient.
\<close>

definition spec_substringMatch :: "Preset \<Rightarrow> string \<Rightarrow> bool" where
  "spec_substringMatch preset query \<longleftrightarrow>
     isSubstring (toLowerCase query) (toLowerCase (p_name preset))
     \<or> (case brandName preset of
          None \<Rightarrow> False
        | Some b \<Rightarrow> isSubstring (toLowerCase query) (toLowerCase b))
     \<or> list_ex (\<lambda>i. isSubstring (toLowerCase query) (toLowerCase i)) (ingredients preset)"


section \<open>Rendering a label\<close>

text \<open>
  The fields of a label that the two renderers read. \<open>labelText\<close> is the property
  \<^verbatim>\<open>text\<close>, the ingredient expression; \<^verbatim>\<open>allergens\<close> is an array of names. An absent
  string field is the empty string, as the server stores it (\<^verbatim>\<open>input.name || ""\<close>), and
  both renderers test a field for being non-empty before they use it.
  \<^verbatim>\<open>ingredientsText\<close> is a property that \<^verbatim>\<open>buildFormattedLabelHtml\<close> reads when \<^verbatim>\<open>text\<close>
  is empty; the server stores whatever properties an update sends, so a label can carry
  it.
\<close>

record Label =
  name :: string
  labelText :: string
  ingredientsText :: string
  allergens :: "string list"
  allergenDetails :: string
  businessName :: string
  businessAddress :: string
  businessCity :: string
  businessState :: string
  businessZip :: string
  businessPhone :: string
  netQuantity :: string
  netQuantityUnit :: string
  includeCottageDisclaimer :: bool

text \<open>
  \<^verbatim>\<open>stripBracketsFromIngredients\<close>: \<^verbatim>\<open>text.replace(/\s+/g, " ").trim()\<close>, every run of
  white space replaced by one space, then trimmed; the empty string for an empty text.
\<close>

function collapseWhiteSpace :: "string \<Rightarrow> string" where
  "collapseWhiteSpace [] = []"
| "collapseWhiteSpace (c # cs) =
     (if isWhiteSpace c then CHR '' '' # collapseWhiteSpace (dropWhile isWhiteSpace cs)
      else c # collapseWhiteSpace cs)"
  by pat_completeness auto
termination
  by (relation "measure length") (auto simp: less_Suc_eq_le length_dropWhile_le)

definition stripBracketsFromIngredients :: "string \<Rightarrow> string" where
  "stripBracketsFromIngredients t = (if t = [] then [] else trim (collapseWhiteSpace t))"

subsection \<open>Upper case\<close>

text \<open>
  \<^verbatim>\<open>String.prototype.toUpperCase\<close> leaves the code points below 256: \<^verbatim>\<open>U+00FF\<close> becomes
  \<^verbatim>\<open>U+0178\<close>, the micro sign \<^verbatim>\<open>U+00B5\<close> becomes \<^verbatim>\<open>U+039C\<close>, and the sharp s
  \<^verbatim>\<open>U+00DF\<close> becomes two letters. Its result, and the rich markup that holds it, is
  therefore a list of code points; \<open>codes\<close> reads a string as its code points.
\<close>

definition codes :: "string \<Rightarrow> nat list" where
  "codes s = map of_char s"




text \<open>
  The upper case of one character below 256: the letter 32 places before it for \<^verbatim>\<open>a\<close>
  to \<^verbatim>\<open>z\<close> and for \<^verbatim>\<open>U+00E0\<close> to \<^verbatim>\<open>U+00FE\<close> without the division sign, the three
  exceptions, and the character itself in every other case.
\<close>

definition upperCodesOf :: "nat \<Rightarrow> nat list" where
  "upperCodesOf n =
     (if 97 \<le> n \<and> n \<le> 122 then [n - 32]
      else if n = 181 then [924]
      else if n = 223 then [83, 83]
      else if n = 255 then [376]
      else if 224 \<le> n \<and> n \<le> 254 \<and> n \<noteq> 247 then [n - 32]
      else [n])"

definition toUpperCodes :: "char \<Rightarrow> nat list" where
  "toUpperCodes c = upperCodesOf (of_char c)"

definition toUpperCase :: "string \<Rightarrow> nat list" where
  "toUpperCase s = concat (map toUpperCodes s)"

text \<open>\<^verbatim>\<open>escapeHtml\<close> on a text given by its code points.\<close>

definition escapeCode :: "nat \<Rightarrow> nat list" where
  "escapeCode n =
     (if n = 38 then codes ''&amp;''
      else if n = 160 then codes ''&nbsp;''
      else if n = 60 then codes ''&lt;''
      else if n = 62 then codes ''&gt;''
      else [n])"

definition escapeHtmlCodes :: "nat list \<Rightarrow> nat list" where
  "escapeHtmlCodes t = concat (map escapeCode t)"

subsection \<open>Rich markup\<close>

text \<open>
  \<^verbatim>\<open>buildFormattedLabelHtml\<close> builds six fragments, each the empty string when its
  section is absent, and concatenates them inside one \<^verbatim>\<open>div\<close>. The allergen fragment
  holds upper-cased text and is a list of code points, as is the whole markup; the
  other fragments are strings of the model.
\<close>

definition sectionMargin :: string where
  \<open>sectionMargin = ''margin-bottom: 8px;''\<close>

definition fontFamily :: string where
  \<open>fontFamily = ''font-family: '' @ [CHR 0x27] @ ''Segoe UI'' @ [CHR 0x27]
     @ '', Tahoma, Geneva, Verdana, sans-serif;''\<close>

definition largeFontSize :: string where
  \<open>largeFontSize = ''font-size: 14pt;''\<close>

definition smallFontSize :: string where
  \<open>smallFontSize = ''font-size: 8pt;''\<close>

definition cottageSentence :: string where
  \<open>cottageSentence =
     ''MADE IN A COTTAGE FOOD OPERATION THAT IS NOT SUBJECT TO GOVERNMENT FOOD SAFETY INSPECTION''\<close>

text \<open>
  The markup around each section, as a function of the text that is put into it; the
  source writes them as template literals.
\<close>

definition productNameDiv :: "string \<Rightarrow> string" where
  \<open>productNameDiv escapedName =
     ''<div style="text-align: center; font-weight: 700; '' @ largeFontSize @ '' ''
     @ sectionMargin @ '' '' @ fontFamily @ ''">'' @ escapedName @ ''</div>''\<close>

definition ingredientsDiv :: "string \<Rightarrow> string" where
  \<open>ingredientsDiv formattedIngredients =
     ''<div style="text-align: center; line-height: 1.6; '' @ sectionMargin @ '' ''
     @ smallFontSize @ '' '' @ fontFamily
     @ ''"><span style="text-decoration: underline; font-weight: 700;">Ingredients:</span> ''
     @ formattedIngredients @ ''</div>''\<close>

definition allergenDiv :: "nat list \<Rightarrow> nat list" where
  \<open>allergenDiv escapedAllergenText =
     codes (''<div style="text-align: center; font-weight: 700; '' @ sectionMargin @ '' ''
            @ smallFontSize @ '' '' @ fontFamily @ ''">CONTAINS: '')
     @ escapedAllergenText @ codes ''</div>''\<close>

definition businessInfoDiv :: "string \<Rightarrow> string" where
  \<open>businessInfoDiv escapedAddressStr =
     ''<div style="text-align: center; font-weight: 700; '' @ smallFontSize @ '' ''
     @ sectionMargin @ '' '' @ fontFamily @ ''">'' @ escapedAddressStr @ ''</div>''\<close>

definition netQuantityDiv :: "string \<Rightarrow> string \<Rightarrow> string" where
  \<open>netQuantityDiv escapedQuantity escapedUnit =
     ''<div style="text-align: center; font-weight: 700; '' @ largeFontSize @ '' ''
     @ sectionMargin @ '' '' @ fontFamily @ ''">Net Wt. '' @ escapedQuantity @ '' ''
     @ escapedUnit @ ''</div>''\<close>

definition cottageDiv :: string where
  \<open>cottageDiv =
     ''<div style="text-align: center; font-weight: 700; '' @ smallFontSize
     @ '' text-transform: uppercase; letter-spacing: 0.3px; '' @ fontFamily @ ''">''
     @ cottageSentence @ ''</div>''\<close>

definition labelDiv :: "nat list \<Rightarrow> nat list" where
  \<open>labelDiv sections =
     codes (''<div style="background: #ffffff; padding: 24px; '' @ fontFamily
            @ '' max-width: 500px; margin: 0 auto;">'')
     @ sections @ codes ''</div>''\<close>

text \<open>\<^verbatim>\<open>label.text || label.ingredientsText || ""\<close>\<close>

definition textOrIngredientsText :: "Label \<Rightarrow> string" where
  "textOrIngredientsText label =
     (if labelText label \<noteq> [] then labelText label else ingredientsText label)"

definition productNameHtml :: "Label \<Rightarrow> string" where
  "productNameHtml label =
     (if name label \<noteq> [] then productNameDiv (escapeHtml (name label)) else [])"

definition ingredientsHtml :: "Label \<Rightarrow> string" where
  "ingredientsHtml label =
     (let cleanIngredients = stripBracketsFromIngredients (textOrIngredientsText label)
      in if cleanIngredients \<noteq> []
         then (let formattedIngredients = formatIngredientsWithBoldPresetNames cleanIngredients
               in ingredientsDiv formattedIngredients)
         else [])"

definition allergenHtml :: "Label \<Rightarrow> nat list" where
  "allergenHtml label =
     (if length (allergens label) > 0
      then (let allergenText = toUpperCase (join '', '' (allergens label))
            in allergenDiv (escapeHtmlCodes allergenText))
      else [])"

definition businessAddressStr :: "Label \<Rightarrow> string" where
  "businessAddressStr label =
     (let addressStr = businessName label;
          addressStr = (if businessAddress label \<noteq> []
                        then addressStr @ '' '' @ businessAddress label else addressStr);
          cityStateZip = join '', ''
            (filter (\<lambda>p. p \<noteq> []) [businessCity label, businessState label, businessZip label])
      in if cityStateZip \<noteq> [] then addressStr @ '', '' @ cityStateZip else addressStr)"

definition businessInfoHtml :: "Label \<Rightarrow> string" where
  "businessInfoHtml label =
     (if businessName label \<noteq> []
      then businessInfoDiv (escapeHtml (businessAddressStr label))
      else [])"

definition netQuantityUnitOrDefault :: "Label \<Rightarrow> string" where
  "netQuantityUnitOrDefault label =
     (if netQuantityUnit label \<noteq> [] then netQuantityUnit label else ''oz'')"

definition netQuantityHtml :: "Label \<Rightarrow> string" where
  "netQuantityHtml label =
     (if netQuantity label \<noteq> []
      then netQuantityDiv (escapeHtml (netQuantity label))
             (escapeHtml (netQuantityUnitOrDefault label))
      else [])"

definition cottageHtml :: "Label \<Rightarrow> string" where
  "cottageHtml label = (if includeCottageDisclaimer label then cottageDiv else [])"

definition buildFormattedLabelHtml :: "Label \<Rightarrow> nat list" where
  "buildFormattedLabelHtml label =
     labelDiv (codes (productNameHtml label) @ codes (ingredientsHtml label)
               @ allergenHtml label @ codes (businessInfoHtml label)
               @ codes (netQuantityHtml label) @ codes (cottageHtml label))"

subsection \<open>Plain text\<close>

text \<open>
  \<^verbatim>\<open>buildFullLabelText\<close> pushes one line per section onto the array \<^verbatim>\<open>lines\<close> and joins
  it with a line feed. Each block of the source is a function that returns the array,
  extended or not.
\<close>

definition pushName :: "Label \<Rightarrow> string list \<Rightarrow> string list" where
  "pushName label lines = (if name label \<noteq> [] then lines @ [name label] else lines)"

definition pushIngredients :: "Label \<Rightarrow> string list \<Rightarrow> string list" where
  "pushIngredients label lines =
     (let cleanIngredients = stripBracketsFromIngredients (labelText label)
      in if cleanIngredients \<noteq> [] then lines @ [''Ingredients: '' @ cleanIngredients]
         else lines)"

definition pushAllergens :: "Label \<Rightarrow> string list \<Rightarrow> string list" where
  "pushAllergens label lines =
     (if length (allergens label) > 0
      then (let allergenText = join '', '' (allergens label);
                allergenText = (if allergenDetails label \<noteq> []
                                then allergenText @ '' ('' @ allergenDetails label @ '')''
                                else allergenText)
            in lines @ [''CONTAINS: '' @ allergenText])
      else lines)"

definition pushBusiness :: "Label \<Rightarrow> string list \<Rightarrow> string list" where
  "pushBusiness label lines =
     (if businessName label \<noteq> []
      then (let addressParts = join '', ''
                  (filter (\<lambda>p. p \<noteq> [])
                     [businessName label, businessAddress label, businessCity label,
                      businessState label, businessZip label, businessPhone label])
            in if addressParts \<noteq> [] then lines @ [addressParts] else lines)
      else lines)"

definition pushNetQuantity :: "Label \<Rightarrow> string list \<Rightarrow> string list" where
  "pushNetQuantity label lines =
     (if netQuantity label \<noteq> []
      then lines @ [''Net Wt. '' @ netQuantity label @ '' '' @ netQuantityUnitOrDefault label]
      else lines)"

definition pushCottage :: "Label \<Rightarrow> string list \<Rightarrow> string list" where
  "pushCottage label lines =
     (if includeCottageDisclaimer label then lines @ [cottageSentence] else lines)"

definition buildFullLabelText_lines :: "Label \<Rightarrow> string list" where
  "buildFullLabelText_lines label =
     pushCottage label (pushNetQuantity label (pushBusiness label
       (pushAllergens label (pushIngredients label (pushName label [])))))"

definition buildFullLabelText :: "Label \<Rightarrow> string" where
  "buildFullLabelText label = join [CHR 0x0A] (buildFullLabelText_lines label)"

text \<open>
  The sections of a label in the fixed order of the spec, and the lines of the plain
  text in its words: for each section that the rich markup has, one line with the field
  values as they are.
\<close>

definition spec_plainLines :: "Label \<Rightarrow> string list" where
  "spec_plainLines label =
     (if productNameHtml label \<noteq> [] then [name label] else [])
     @ (if ingredientsHtml label \<noteq> []
        then [''Ingredients: '' @ stripBracketsFromIngredients (labelText label)] else [])
     @ (if allergenHtml label \<noteq> []
        then [''CONTAINS: '' @ join '', '' (allergens label)
              @ (if allergenDetails label \<noteq> [] then '' ('' @ allergenDetails label @ '')''
                 else [])]
        else [])
     @ (if businessInfoHtml label \<noteq> []
        then [join '', '' (filter (\<lambda>p. p \<noteq> [])
                [businessName label, businessAddress label, businessCity label,
                 businessState label, businessZip label, businessPhone label])]
        else [])
     @ (if netQuantityHtml label \<noteq> []
        then [''Net Wt. '' @ netQuantity label @ '' '' @ netQuantityUnitOrDefault label]
        else [])
     @ (if cottageHtml label \<noteq> [] then [cottageSentence] else [])"

text \<open>The balanced expressions of the round-trip property: every \<^verbatim>\<open>)\<close> closes an open \<^verbatim>\<open>(\<close>, and none stays open.\<close>

fun balancedFrom :: "nat \<Rightarrow> string \<Rightarrow> bool" where
  "balancedFrom d [] = (d = 0)"
| "balancedFrom d (c # cs) =
     (if c = CHR ''('' then balancedFrom (Suc d) cs
      else if c = CHR '')'' then (case d of 0 \<Rightarrow> False | Suc d' \<Rightarrow> balancedFrom d' cs)
      else balancedFrom d cs)"

definition balanced :: "string \<Rightarrow> bool" where
  "balanced s = balancedFrom 0 s"


section \<open>Rendering as the source runs it\<close>

text \<open>
  The renderers are methods that receive the label by reference, and \<^verbatim>\<open>escapeHtml\<close>
  works through the document:
  \<^verbatim>\<open>
  escapeHtml(text) {
    const div = document.createElement("div");
    div.textContent = text;
    return div.innerHTML;
  }
  \<close>
  The store holds what a renderer can reach: the label objects of \<^verbatim>\<open>this.labels\<close>, by
  reference; the content of the page; and the elements that were created and never
  attached to the page, each with the text it was given, as code points. A function of the source
  becomes a function from the store to its result and the store it leaves; where the
  source only reads, the store is passed on as it is.
\<close>

record store =
  labelObjects :: "nat \<Rightarrow> Label option"
  documentBody :: string
  createdElements :: "nat list list"

definition escapeHtml_run :: "string \<Rightarrow> store \<Rightarrow> string \<times> store" where
  "escapeHtml_run t s = (escapeHtml t, s\<lparr>createdElements := createdElements s @ [codes t]\<rparr>)"

definition escapeHtmlCodes_run :: "nat list \<Rightarrow> store \<Rightarrow> nat list \<times> store" where
  "escapeHtmlCodes_run t s =
     (escapeHtmlCodes t, s\<lparr>createdElements := createdElements s @ [t]\<rparr>)"

definition formatPart_run :: "string \<Rightarrow> store \<Rightarrow> string \<times> store" where
  "formatPart_run part s =
     (let parenIndex = indexOf part (CHR ''('')
      in if parenIndex > 0
         then (let name = trim (substring part 0 parenIndex);
                   rest = substring_from part parenIndex
               in case escapeHtml_run name s of
                    (escaped, s1) \<Rightarrow> (''<strong>'' @ escaped @ ''</strong> '' @ rest, s1))
         else (case escapeHtml_run part s of
                 (escaped, s1) \<Rightarrow> (''<strong>'' @ escaped @ ''</strong>'', s1)))"

text \<open>\<^verbatim>\<open>parts.map(f)\<close> where \<^verbatim>\<open>f\<close> works on the store: element after element.\<close>

fun map_run :: "('a \<Rightarrow> store \<Rightarrow> 'b \<times> store) \<Rightarrow> 'a list \<Rightarrow> store \<Rightarrow> 'b list \<times> store" where
  "map_run f [] s = ([], s)"
| "map_run f (x # xs) s =
     (case f x s of
        (y, s1) \<Rightarrow> (case map_run f xs s1 of (ys, s2) \<Rightarrow> (y # ys, s2)))"

definition formatIngredientsWithBoldPresetNames_run :: "string \<Rightarrow> store \<Rightarrow> string \<times> store" where
  "formatIngredientsWithBoldPresetNames_run t s =
     (if t = [] then ([], s)
      else (case map_run formatPart_run (splitTopLevel t) s of
              (formatted, s1) \<Rightarrow> (join '', '' formatted, s1)))"

definition productNameHtml_run :: "Label \<Rightarrow> store \<Rightarrow> string \<times> store" where
  "productNameHtml_run label s =
     (if name label \<noteq> []
      then (case escapeHtml_run (name label) s of (escaped, s1) \<Rightarrow> (productNameDiv escaped, s1))
      else ([], s))"

definition ingredientsHtml_run :: "Label \<Rightarrow> store \<Rightarrow> string \<times> store" where
  "ingredientsHtml_run label s =
     (let cleanIngredients = stripBracketsFromIngredients (textOrIngredientsText label)
      in if cleanIngredients \<noteq> []
         then (case formatIngredientsWithBoldPresetNames_run cleanIngredients s of
                 (formattedIngredients, s1) \<Rightarrow> (ingredientsDiv formattedIngredients, s1))
         else ([], s))"

definition allergenHtml_run :: "Label \<Rightarrow> store \<Rightarrow> nat list \<times> store" where
  "allergenHtml_run label s =
     (if length (allergens label) > 0
      then (let allergenText = toUpperCase (join '', '' (allergens label))
            in case escapeHtmlCodes_run allergenText s of
                 (escaped, s1) \<Rightarrow> (allergenDiv escaped, s1))
      else ([], s))"

definition businessInfoHtml_run :: "Label \<Rightarrow> store \<Rightarrow> string \<times> store" where
  "businessInfoHtml_run label s =
     (if businessName label \<noteq> []
      then (case escapeHtml_run (businessAddressStr label) s of
              (escaped, s1) \<Rightarrow> (businessInfoDiv escaped, s1))
      else ([], s))"

definition netQuantityHtml_run :: "Label \<Rightarrow> store \<Rightarrow> string \<times> store" where
  "netQuantityHtml_run label s =
     (if netQuantity label \<noteq> []
      then (case escapeHtml_run (netQuantity label) s of
              (escapedQuantity, s1) \<Rightarrow>
                (case escapeHtml_run (netQuantityUnitOrDefault label) s1 of
                   (escapedUnit, s2) \<Rightarrow> (netQuantityDiv escapedQuantity escapedUnit, s2)))
      else ([], s))"

text \<open>
  The two renderers on a reference. A reference without a label object makes the first
  property access throw, which is \<open>None\<close>.
\<close>

definition buildFormattedLabelHtml_run :: "nat \<Rightarrow> store \<Rightarrow> (nat list \<times> store) option" where
  "buildFormattedLabelHtml_run ref s =
     (case labelObjects s ref of
        None \<Rightarrow> None
      | Some label \<Rightarrow>
          (case productNameHtml_run label s of (productName, s1) \<Rightarrow>
           case ingredientsHtml_run label s1 of (ingredientsPart, s2) \<Rightarrow>
           case allergenHtml_run label s2 of (allergenPart, s3) \<Rightarrow>
           case businessInfoHtml_run label s3 of (businessPart, s4) \<Rightarrow>
           case netQuantityHtml_run label s4 of (netQuantityPart, s5) \<Rightarrow>
             Some (labelDiv (codes productName @ codes ingredientsPart @ allergenPart
                             @ codes businessPart @ codes netQuantityPart
                             @ codes (cottageHtml label)), s5)))"

definition buildFullLabelText_run :: "nat \<Rightarrow> store \<Rightarrow> (string \<times> store) option" where
  "buildFullLabelText_run ref s =
     (case labelObjects s ref of
        None \<Rightarrow> None
      | Some label \<Rightarrow> Some (buildFullLabelText label, s))"

definition storageText_run :: "nat \<Rightarrow> store \<Rightarrow> (string \<times> store) option" where
  "storageText_run ref s =
     (case labelObjects s ref of
        None \<Rightarrow> None
      | Some label \<Rightarrow> Some (stripBracketsFromIngredients (labelText label), s))"

text \<open>
  The spec's \<^verbatim>\<open>render\<close>: the three representations of one label, computed one after the
  other as \<^verbatim>\<open>copyRichText\<close> does with the rich markup and the plain text.
\<close>

record rendering =
  storageText :: string
  richMarkup :: "nat list"
  plainText :: string

definition render_run :: "nat \<Rightarrow> store \<Rightarrow> (rendering \<times> store) option" where
  "render_run ref s =
     (case storageText_run ref s of
        None \<Rightarrow> None
      | Some (storage, s1) \<Rightarrow>
          (case buildFormattedLabelHtml_run ref s1 of
             None \<Rightarrow> None
           | Some (html, s2) \<Rightarrow>
               (case buildFullLabelText_run ref s2 of
                  None \<Rightarrow> None
                | Some (plain, s3) \<Rightarrow>
                    Some (\<lparr>storageText = storage, richMarkup = html, plainText = plain\<rparr>, s3))))"

text \<open>
  \<open>onlyCreates s s'\<close>: the store \<open>s'\<close> is \<open>s\<close> but for elements that were created and
  not attached; the label objects and the page are those of \<open>s\<close>.
\<close>

definition onlyCreates :: "store \<Rightarrow> store \<Rightarrow> bool" where
  "onlyCreates s s' \<longleftrightarrow> (\<exists>es. s' = s\<lparr>createdElements := createdElements s @ es\<rparr>)"


section \<open>Items of a split\<close>

text \<open>
  The running depth after a string that is read from depth \<open>d\<close>, as the splitting loop
  counts it, and the strings in which the loop, started at depth \<open>d\<close>, meets no comma at
  depth zero.
\<close>

fun depthAfter :: "int \<Rightarrow> string \<Rightarrow> int" where
  "depthAfter d [] = d"
| "depthAfter d (c # cs) =
     depthAfter (if c = CHR ''('' then d + 1 else if c = CHR '')'' then d - 1 else d) cs"

fun noSeparator :: "int \<Rightarrow> string \<Rightarrow> bool" where
  "noSeparator d [] = True"
| "noSeparator d (c # cs) =
     (\<not> (c = CHR '','' \<and> d = 0)
      \<and> noSeparator (if c = CHR ''('' then d + 1 else if c = CHR '')'' then d - 1 else d) cs)"

text \<open>
  A closed item is trimmed, has no comma at depth zero and brings the depth back to
  zero, so that a separating comma can follow it; an open item may leave parentheses
  open, as the last item of an unbalanced expression does. \<open>scanInv\<close> is what holds of
  the three variables of the loop after every character.
\<close>

definition closedItem :: "string \<Rightarrow> bool" where
  "closedItem x \<longleftrightarrow> noSeparator 0 x \<and> depthAfter 0 x = 0 \<and> trim x = x"

definition openItem :: "string \<Rightarrow> bool" where
  "openItem x \<longleftrightarrow> noSeparator 0 x \<and> trim x = x"

definition scanInv :: "split_state \<Rightarrow> bool" where
  "scanInv st \<longleftrightarrow> (\<forall>p\<in>set (parts st). closedItem p)
     \<and> noSeparator 0 (current st) \<and> parenDepth st = depthAfter 0 (current st)"

section \<open>Evaluation of the splitter on concrete expressions\<close>

lemma isWhiteSpace_simps [simp]:
  "isWhiteSpace (CHR '' '')"
  "\<not> isWhiteSpace (CHR '','')"
  "\<not> isWhiteSpace (CHR ''('')"
  "\<not> isWhiteSpace (CHR '')'')"
  by (simp_all add: isWhiteSpace_def)

text \<open>
  Claim C1. \<^verbatim>\<open>splitTopLevel\<close> cuts at the commas of depth zero and trims every item,
  and on \<^verbatim>\<open>"Cookie Mix (flour, sugar), Butter"\<close> it returns the two items of the
  spec. It is stated to drop every item that is empty after trimming; the loop pushes
  the item before a separating comma without looking at it, and only the item left at
  the end of the string is tested. On \<^verbatim>\<open>"a,,b"\<close> the result has three items, the
  second one empty.
\<close>

theorem splitTopLevel_keeps_empty_item:
  "splitTopLevel ''Cookie Mix (flour, sugar), Butter'' = [''Cookie Mix (flour, sugar)'', ''Butter'']
   \<and> splitTopLevel ''a,,b'' = [''a'', [], ''b'']
   \<and> [] \<in> set (splitTopLevel ''a,,b'')"
  by (simp add: splitTopLevel_def split_finish_def split_step_def split_init_def trim_def
      isWhiteSpace_def)

text \<open>
  Claim C4. Splitting, joining the items with a comma and a space, and splitting again
  is stated to give the items of the first split for every balanced expression. The
  empty items that the first split keeps break this: on \<^verbatim>\<open>"a,,"\<close>, which has no
  parenthesis at all, the first split gives \<^verbatim>\<open>a\<close> and an empty item, the joined string
  is \<^verbatim>\<open>"a, "\<close>, and its split gives \<^verbatim>\<open>a\<close> alone, because an empty item at the end of
  the string is dropped while one before a comma is kept.
\<close>

theorem splitTopLevel_rejoin_loses_item:
  "balanced ''a,,''
   \<and> splitTopLevel ''a,,'' = [''a'', []]
   \<and> join '', '' (splitTopLevel ''a,,'') = ''a, ''
   \<and> splitTopLevel (join '', '' (splitTopLevel ''a,,'')) = [''a'']
   \<and> splitTopLevel (join '', '' (splitTopLevel ''a,,'')) \<noteq> splitTopLevel ''a,,''"
  by (simp add: balanced_def splitTopLevel_def split_finish_def split_step_def split_init_def
      trim_def isWhiteSpace_def)

section \<open>Trimming and splitting at commas\<close>

lemma trim_Nil [simp]: "trim [] = []"
  by (simp add: trim_def)

lemma trim_all_ws:
  assumes "\<forall>c\<in>set s. isWhiteSpace c"
  shows "trim s = []"
proof -
  have "dropWhile isWhiteSpace s = []" using assms by simp
  then show ?thesis by (simp only: trim_def rev.simps dropWhile.simps)
qed

lemma trim_ws_prefix: "\<forall>c\<in>set w. isWhiteSpace c \<Longrightarrow> trim (w @ s) = trim s"
  by (simp add: trim_def dropWhile_append)

lemma trim_ws_suffix:
  assumes "\<forall>c\<in>set w. isWhiteSpace c"
  shows "trim (s @ w) = trim s"
proof (cases "\<forall>c\<in>set s. isWhiteSpace c")
  case True
  with assms have "\<forall>c\<in>set (s @ w). isWhiteSpace c" by auto
  then have "trim (s @ w) = []" by (rule trim_all_ws)
  with True show ?thesis by (simp add: trim_all_ws)
next
  case False
  then have "dropWhile isWhiteSpace (s @ w) = dropWhile isWhiteSpace s @ w"
    by (auto simp: dropWhile_append)
  with assms show ?thesis
    by (simp add: trim_def dropWhile_append)
qed

lemma rev_dropWhile_rev:
  "xs = rev (dropWhile P (rev xs)) @ rev (takeWhile P (rev xs))"
proof -
  have "rev xs = takeWhile P (rev xs) @ dropWhile P (rev xs)" by simp
  then have "rev (rev xs) = rev (takeWhile P (rev xs) @ dropWhile P (rev xs))" by simp
  then show ?thesis by (simp only: rev_rev_ident rev_append)
qed

text \<open>A string is its trimmed part between two runs of white space.\<close>

lemma trim_decompose:
  "\<exists>w1 w2. s = w1 @ trim s @ w2 \<and> (\<forall>c\<in>set w1. isWhiteSpace c) \<and> (\<forall>c\<in>set w2. isWhiteSpace c)"
proof -
  let ?d = "dropWhile isWhiteSpace s"
  let ?w1 = "takeWhile isWhiteSpace s"
  let ?w2 = "rev (takeWhile isWhiteSpace (rev ?d))"
  have "?d = trim s @ ?w2"
    unfolding trim_def by (rule rev_dropWhile_rev)
  then have "s = ?w1 @ trim s @ ?w2"
    by (metis takeWhile_dropWhile_id)
  moreover have "\<forall>c\<in>set ?w1. isWhiteSpace c"
    by (auto dest: set_takeWhileD)
  moreover have "\<forall>c\<in>set ?w2. isWhiteSpace c"
    by (auto dest: set_takeWhileD)
  ultimately show ?thesis by blast
qed

lemma trim_ends:
  assumes ne: "trim s \<noteq> []"
  shows "\<not> isWhiteSpace (hd (trim s)) \<and> \<not> isWhiteSpace (last (trim s))"
proof -
  let ?d = "dropWhile isWhiteSpace s"
  let ?u = "dropWhile isWhiteSpace (rev ?d)"
  have t: "trim s = rev ?u" by (simp add: trim_def)
  have u: "?u \<noteq> []" using ne by (simp add: trim_def)
  then have "\<not> isWhiteSpace (hd ?u)" by (rule hd_dropWhile)
  then have l: "\<not> isWhiteSpace (last (trim s))" using u by (simp add: t last_rev)
  have ds: "?d = rev ?u @ rev (takeWhile isWhiteSpace (rev ?d))"
    by (rule rev_dropWhile_rev)
  have ru: "rev ?u \<noteq> []" using u by simp
  have dne: "?d \<noteq> []"
  proof
    assume "?d = []"
    then have "?u = dropWhile isWhiteSpace (rev [])" by (simp only:)
    with u show False by simp
  qed
  have "hd ?d = hd (rev ?u @ rev (takeWhile isWhiteSpace (rev ?d)))"
    using ds by simp
  also have "\<dots> = hd (rev ?u)" using ru by (rule hd_append2)
  finally have "hd ?d = hd (trim s)" by (simp add: t)
  moreover have "\<not> isWhiteSpace (hd ?d)" using dne by (rule hd_dropWhile)
  ultimately show ?thesis using l by simp
qed

lemma dropWhile_hd_fixed: "xs \<noteq> [] \<Longrightarrow> \<not> P (hd xs) \<Longrightarrow> dropWhile P xs = xs"
  by (cases xs) auto

lemma trim_fixed:
  assumes "s \<noteq> []" "\<not> isWhiteSpace (hd s)" "\<not> isWhiteSpace (last s)"
  shows "trim s = s"
proof -
  have a: "dropWhile isWhiteSpace s = s" using assms by (simp add: dropWhile_hd_fixed)
  have "rev s \<noteq> []" "\<not> isWhiteSpace (hd (rev s))" using assms by (simp_all add: hd_rev)
  then have b: "dropWhile isWhiteSpace (rev s) = rev s" by (rule dropWhile_hd_fixed)
  show ?thesis by (simp add: trim_def a b)
qed

lemma trim_idem [simp]: "trim (trim s) = trim s"
  by (cases "trim s = []") (simp_all add: trim_fixed trim_ends)

lemma split_on_ne [simp]: "split_on sep s \<noteq> []"
  by (induction s) (auto split: list.splits)

lemma split_on_no_sep: "sep \<notin> set w \<Longrightarrow> split_on sep w = [w]"
  by (induction w) auto

lemma split_on_prefix:
  "sep \<notin> set w \<Longrightarrow> split_on sep (w @ s) = (w @ hd (split_on sep s)) # tl (split_on sep s)"
proof (induction w)
  case Nil
  then show ?case by simp
next
  case (Cons c w)
  then show ?case by (auto split: list.splits)
qed

lemma split_on_suffix:
  "sep \<notin> set w \<Longrightarrow>
   split_on sep (s @ w) = butlast (split_on sep s) @ [last (split_on sep s) @ w]"
proof (induction s)
  case Nil
  then show ?case by (simp add: split_on_no_sep)
next
  case (Cons c s)
  then show ?case by (auto split: list.splits)
qed

lemma not_ws_comma: "\<forall>c\<in>set w. isWhiteSpace c \<Longrightarrow> CHR '','' \<notin> set w"
  using isWhiteSpace_simps(2) by blast

lemma map_trim_split_prefix:
  assumes "\<forall>c\<in>set w. isWhiteSpace c"
  shows "map trim (split_on (CHR '','') (w @ s)) = map trim (split_on (CHR '','') s)"
proof -
  have "split_on (CHR '','') (w @ s) = (w @ hd (split_on (CHR '','') s)) # tl (split_on (CHR '','') s)"
    using assms by (simp add: split_on_prefix not_ws_comma)
  then have "map trim (split_on (CHR '','') (w @ s)) =
      trim (hd (split_on (CHR '','') s)) # map trim (tl (split_on (CHR '','') s))"
    using assms by (simp add: trim_ws_prefix)
  also have "\<dots> = map trim (split_on (CHR '','') s)"
    by (cases "split_on (CHR '','') s") simp_all
  finally show ?thesis .
qed

lemma map_trim_split_suffix:
  assumes "\<forall>c\<in>set w. isWhiteSpace c"
  shows "map trim (split_on (CHR '','') (s @ w)) = map trim (split_on (CHR '','') s)"
proof -
  let ?p = "split_on (CHR '','') s"
  have "map trim (split_on (CHR '','') (s @ w)) = map trim (butlast ?p) @ [trim (last ?p @ w)]"
    using assms by (simp add: split_on_suffix not_ws_comma)
  also have "\<dots> = map trim (butlast ?p) @ [trim (last ?p)]"
    using assms by (simp add: trim_ws_suffix)
  also have "\<dots> = map trim ?p"
    by (cases ?p rule: rev_cases) simp_all
  finally show ?thesis .
qed

text \<open>
  Trimming the whole text before the split, as the two aggregation functions do, changes
  no trimmed piece.
\<close>

lemma map_trim_split_trim:
  "map trim (split_on (CHR '','') (trim s)) = map trim (split_on (CHR '','') s)"
proof -
  obtain w1 w2 where s: "s = w1 @ trim s @ w2"
    and w1: "\<forall>c\<in>set w1. isWhiteSpace c" and w2: "\<forall>c\<in>set w2. isWhiteSpace c"
    using trim_decompose by blast
  have "map trim (split_on (CHR '','') s) = map trim (split_on (CHR '','') (w1 @ (trim s @ w2)))"
    using s by simp
  also have "\<dots> = map trim (split_on (CHR '','') (trim s @ w2))"
    using w1 by (rule map_trim_split_prefix)
  also have "\<dots> = map trim (split_on (CHR '','') (trim s))"
    using w2 by (rule map_trim_split_suffix)
  finally show ?thesis by simp
qed

lemma additional_tokens:
  "(if trim additional \<noteq> [] then parseIngredients (trim additional) else []) = spec_tokens additional"
proof (cases "trim additional = []")
  case True
  have "map trim (split_on (CHR '','') additional) = map trim (split_on (CHR '','') (trim additional))"
    by (simp add: map_trim_split_trim)
  with True show ?thesis by (simp add: spec_tokens_def)
next
  case False
  then show ?thesis
    by (simp add: parseIngredients_def spec_tokens_def map_trim_split_trim)
qed

section \<open>Aggregation\<close>

lemma foldl_collect_step:
  "foldl (collect_step presets) acc ids =
     acc @ concat (map spec_flatItems (spec_selected presets ids))"
  by (induction ids arbitrary: acc)
     (auto simp: collect_step_def spec_selected_def spec_flatItems_def List.map_filter_simps
           split: option.splits)

lemma foldl_format_step:
  "foldl (format_step presets) acc ids =
     acc @ map spec_expressionItem (spec_selected presets ids)"
  by (induction ids arbitrary: acc)
     (auto simp: format_step_def spec_selected_def spec_expressionItem_def List.map_filter_simps
           split: option.splits)

text \<open>
  Claim C2. The presets are taken in the order of the selected ids. A preset with
  sub-ingredients gives the expression item \<^verbatim>\<open>name (sub1, sub2, ...)\<close> and its
  sub-ingredients to the flat list, a preset without gives its name to both; then each
  trimmed non-empty piece of the additional text follows, in the order of the text, in
  both. The expression is the items joined with a comma and a space. Nothing is sorted.
\<close>

theorem aggregation_in_selection_order:
  "collectAllIngredients presets ids additional =
     concat (map spec_flatItems (spec_selected presets ids)) @ spec_tokens additional
   \<and> buildFormattedLabelText presets ids additional =
     join '', '' (map spec_expressionItem (spec_selected presets ids) @ spec_tokens additional)"
proof
  have "collectAllIngredients presets ids additional =
      concat (map spec_flatItems (spec_selected presets ids)) @
      (if trim additional \<noteq> [] then parseIngredients (trim additional) else [])"
    by (simp add: collectAllIngredients_def foldl_collect_step Let_def)
  then show "collectAllIngredients presets ids additional =
      concat (map spec_flatItems (spec_selected presets ids)) @ spec_tokens additional"
    by (simp only: additional_tokens)
next
  have "buildFormattedLabelText presets ids additional =
      join '', '' (map spec_expressionItem (spec_selected presets ids) @
      (if trim additional \<noteq> [] then parseIngredients (trim additional) else []))"
    by (simp add: buildFormattedLabelText_def foldl_format_step Let_def)
  then show "buildFormattedLabelText presets ids additional =
      join '', '' (map spec_expressionItem (spec_selected presets ids) @ spec_tokens additional)"
    by (simp only: additional_tokens)
qed

theorem aggregation_in_selection_order_witness:
  "collectAllIngredients
      [\<lparr>p_id = ''p1'', p_name = ''Spices'', brandName = None,
         ingredients = [''Cinnamon'', ''Nutmeg'']\<rparr>,
       \<lparr>p_id = ''p2'', p_name = ''Eggs'', brandName = None, ingredients = []\<rparr>]
      [''p2'', ''p1''] ''Vanilla, Salt''
     = [''Eggs'', ''Cinnamon'', ''Nutmeg'', ''Vanilla'', ''Salt'']
   \<and> buildFormattedLabelText
      [\<lparr>p_id = ''p1'', p_name = ''Spices'', brandName = None,
         ingredients = [''Cinnamon'', ''Nutmeg'']\<rparr>,
       \<lparr>p_id = ''p2'', p_name = ''Eggs'', brandName = None, ingredients = []\<rparr>]
      [''p2'', ''p1''] ''Vanilla, Salt''
     = ''Eggs, Spices (Cinnamon, Nutmeg), Vanilla, Salt''"
  using aggregation_in_selection_order
    [of "[\<lparr>p_id = ''p1'', p_name = ''Spices'', brandName = None,
            ingredients = [''Cinnamon'', ''Nutmeg'']\<rparr>,
          \<lparr>p_id = ''p2'', p_name = ''Eggs'', brandName = None, ingredients = []\<rparr>]"
        "[''p2'', ''p1'']" "''Vanilla, Salt''"]
  by (simp add: spec_selected_def spec_flatItems_def spec_expressionItem_def spec_tokens_def
      getPresetById_def List.map_filter_simps trim_def isWhiteSpace_def)

text \<open>
  Claim C8. With no selected preset and an additional text that has no token, the
  aggregation returns the empty flat list and the empty expression; it has no failing
  branch, so the check for at least one ingredient is left to the caller.
\<close>

theorem aggregation_of_nothing:
  assumes "spec_selected presets ids = []" and "spec_tokens additional = []"
  shows "collectAllIngredients presets ids additional = []
       \<and> buildFormattedLabelText presets ids additional = []"
proof -
  have none: "(if trim additional \<noteq> [] then parseIngredients (trim additional) else []) = []"
    using assms(2) by (simp only: additional_tokens)
  have flat: "foldl (collect_step presets) [] ids = []"
    using assms(1) by (simp add: foldl_collect_step)
  have items: "foldl (format_step presets) [] ids = []"
    using assms(1) by (simp add: foldl_format_step)
  have "collectAllIngredients presets ids additional = []"
    using none flat by (simp add: collectAllIngredients_def Let_def split: if_splits)
  moreover have "buildFormattedLabelText presets ids additional = []"
    using none items by (simp add: buildFormattedLabelText_def Let_def split: if_splits)
  ultimately show ?thesis by simp
qed

theorem aggregation_of_nothing_witness:
  "spec_selected [\<lparr>p_id = ''p2'', p_name = ''Eggs'', brandName = None, ingredients = []\<rparr>] [] = []
   \<and> spec_tokens '' , '' = []
   \<and> collectAllIngredients
        [\<lparr>p_id = ''p2'', p_name = ''Eggs'', brandName = None, ingredients = []\<rparr>] [] '' , '' = []
   \<and> buildFormattedLabelText
        [\<lparr>p_id = ''p2'', p_name = ''Eggs'', brandName = None, ingredients = []\<rparr>] [] '' , '' = []"
proof -
  have sel: "spec_selected [\<lparr>p_id = ''p2'', p_name = ''Eggs'', brandName = None, ingredients = []\<rparr>] [] = []"
    by (simp add: spec_selected_def List.map_filter_simps)
  have tok: "spec_tokens '' , '' = []"
    by (simp add: spec_tokens_def trim_def isWhiteSpace_def)
  show ?thesis
    using sel tok aggregation_of_nothing [OF sel tok] by simp
qed

section \<open>Bold preset names\<close>

lemma indexOf_eq:
  "indexOf s c = (if c \<in> set s then int (length (takeWhile (\<lambda>x. x \<noteq> c) s)) else -1)"
  by (induction s) (auto simp: Let_def)

lemma take_length_takeWhile: "take (length (takeWhile P s)) s = takeWhile P s"
  by (induction s) auto

lemma drop_length_takeWhile: "drop (length (takeWhile P s)) s = dropWhile P s"
  by (induction s) auto

lemma formatPart_cases:
  "formatPart item =
     (if CHR ''('' \<in> set item \<and> take 1 item \<noteq> ''(''
      then emphasised (trim (spec_beforeParen item)) @ '' '' @ spec_fromParen item
      else emphasised item)"
proof (cases item)
  case Nil
  then show ?thesis by (simp add: formatPart_def emphasised_def)
next
  case (Cons c cs)
  show ?thesis
  proof (cases "c = CHR ''(''")
    case True
    with Cons show ?thesis by (simp add: formatPart_def emphasised_def)
  next
    case False
    show ?thesis
    proof (cases "CHR ''('' \<in> set item")
      case outside: False
      then show ?thesis by (simp add: formatPart_def emphasised_def indexOf_eq)
    next
      case inside: True
      let ?n = "length (takeWhile (\<lambda>x. x \<noteq> CHR ''('') item)"
      have idx: "indexOf item (CHR ''('') = int ?n"
        using inside by (simp add: indexOf_eq)
      have pos: "0 < ?n"
        using False Cons by simp
      have first: "take 1 item \<noteq> ''(''"
        using False Cons by simp
      have "formatPart item =
          ''<strong>'' @ escapeHtml (trim (take ?n item)) @ ''</strong> '' @ drop ?n item"
        using pos by (simp add: formatPart_def idx substring_def substring_from_def Let_def)
      then show ?thesis
        using inside first
        by (simp add: take_length_takeWhile drop_length_takeWhile emphasised_def
            spec_beforeParen_def spec_fromParen_def)
    qed
  qed
qed

lemma splitTopLevel_Nil: "splitTopLevel [] = []"
  by (simp add: splitTopLevel_def split_finish_def split_init_def trim_def)

lemma splitTopLevel_paren_first: "splitTopLevel ''(a&b), c'' = [''(a&b)'', ''c'']"
  by (simp add: splitTopLevel_def split_finish_def split_step_def split_init_def trim_def
      isWhiteSpace_def)

text \<open>
  Every item of the expression is formatted by one of two branches. An item that
  contains \<^verbatim>\<open>(\<close> after its first character has the trimmed substring before the first
  \<^verbatim>\<open>(\<close> emphasised, with escaping, and a space and the substring from that \<^verbatim>\<open>(\<close> on
  follow as they are. Every other item is emphasised in full, with escaping.
\<close>

lemma formatIngredients_items:
  "formatIngredientsWithBoldPresetNames expr =
     join '', ''
       (map (\<lambda>item. if CHR ''('' \<in> set item \<and> take 1 item \<noteq> ''(''
                     then emphasised (trim (spec_beforeParen item)) @ '' '' @ spec_fromParen item
                     else emphasised item)
            (splitTopLevel expr))"
proof -
  have "formatPart = (\<lambda>item. if CHR ''('' \<in> set item \<and> take 1 item \<noteq> ''(''
                     then emphasised (trim (spec_beforeParen item)) @ '' '' @ spec_fromParen item
                     else emphasised item)"
    by (rule ext) (rule formatPart_cases)
  then show ?thesis
    by (cases "expr = []") (simp_all add: formatIngredientsWithBoldPresetNames_def splitTopLevel_Nil)
qed

lemma splitTopLevel_spices:
  "splitTopLevel ''Spices (Cinnamon, Nutmeg), Butter'' = [''Spices (Cinnamon, Nutmeg)'', ''Butter'']"
  by (simp add: splitTopLevel_def split_finish_def split_step_def split_init_def trim_def
      isWhiteSpace_def)

text \<open>
  Claim C3. On \<^verbatim>\<open>"Spices (Cinnamon, Nutmeg), Butter"\<close> exactly \<^verbatim>\<open>Spices\<close> and \<^verbatim>\<open>Butter\<close>
  are emphasised and the parenthetical part stays as it is, as the claim says. The claim
  says the same of every item in which a \<^verbatim>\<open>(\<close> is present, and the comments of the
  source say that only the name before the parentheses is bold, that the parenthetical
  content is kept as it is, not escaped, and that the other branch is for an item with no
  parentheses. The source tests \<^verbatim>\<open>parenIndex > 0\<close>, so an item that begins with \<^verbatim>\<open>(\<close>
  takes that other branch: on \<^verbatim>\<open>"(a&b), c"\<close> the first item contains \<^verbatim>\<open>(\<close>, its
  parenthetical part is the whole item, and the output holds it emphasised and escaped,
  not as it was.
\<close>

theorem boldPresetNames_paren_first_item:
  "formatIngredientsWithBoldPresetNames ''Spices (Cinnamon, Nutmeg), Butter''
     = ''<strong>Spices</strong> (Cinnamon, Nutmeg), <strong>Butter</strong>''
   \<and> splitTopLevel ''(a&b), c'' = [''(a&b)'', ''c'']
   \<and> CHR ''('' \<in> set ''(a&b)''
   \<and> spec_beforeParen ''(a&b)'' = []
   \<and> spec_fromParen ''(a&b)'' = ''(a&b)''
   \<and> formatIngredientsWithBoldPresetNames ''(a&b), c''
       = ''<strong>(a&amp;b)</strong>, <strong>c</strong>''
   \<and> \<not> isSubstring (spec_fromParen ''(a&b)'') (formatIngredientsWithBoldPresetNames ''(a&b), c'')"
proof -
  have first: "formatIngredientsWithBoldPresetNames ''Spices (Cinnamon, Nutmeg), Butter''
     = ''<strong>Spices</strong> (Cinnamon, Nutmeg), <strong>Butter</strong>''"
    by (simp add: formatIngredientsWithBoldPresetNames_def formatPart_def splitTopLevel_spices
        escapeHtml_def escapeChar_def substring_def substring_from_def trim_def isWhiteSpace_def)
  have second: "formatIngredientsWithBoldPresetNames ''(a&b), c''
       = ''<strong>(a&amp;b)</strong>, <strong>c</strong>''"
    by (simp add: formatIngredientsWithBoldPresetNames_def formatPart_def splitTopLevel_paren_first
        escapeHtml_def escapeChar_def)
  have gone: "\<not> isSubstring ''(a&b)'' ''<strong>(a&amp;b)</strong>, <strong>c</strong>''"
    by simp
  show ?thesis
    using first second gone
    by (simp add: splitTopLevel_paren_first spec_beforeParen_def spec_fromParen_def)
qed

section \<open>Identifier resolution\<close>

lemma hexChar_lower:
  assumes "isLowerHexDigit c" and "hexDigitValue c = Some v"
  shows "hexChar v = c"
proof -
  from assms(1) have "c = CHR ''0'' \<or> c = CHR ''1'' \<or> c = CHR ''2'' \<or> c = CHR ''3''
      \<or> c = CHR ''4'' \<or> c = CHR ''5'' \<or> c = CHR ''6'' \<or> c = CHR ''7'' \<or> c = CHR ''8''
      \<or> c = CHR ''9'' \<or> c = CHR ''a'' \<or> c = CHR ''b'' \<or> c = CHR ''c'' \<or> c = CHR ''d''
      \<or> c = CHR ''e'' \<or> c = CHR ''f''"
    by (simp add: isLowerHexDigit_def)
  then show ?thesis
    using assms(2)
    by (elim disjE) (simp_all add: hexDigitValue_def hexChar_def)
qed

lemma hexChar_is_lower: "isLowerHexDigit (hexChar n)"
proof -
  have "n mod 16 < length ''0123456789abcdef''" by simp
  then show ?thesis
    unfolding hexChar_def isLowerHexDigit_def by (rule nth_mem)
qed

lemma hexDigitValue_bound:
  assumes "hexDigitValue c = Some v"
  shows "v < 16"
proof -
  from assms have "(c, v) \<in> set [(CHR ''0'', 0), (CHR ''1'', 1), (CHR ''2'', 2), (CHR ''3'', 3),
             (CHR ''4'', 4), (CHR ''5'', 5), (CHR ''6'', 6), (CHR ''7'', 7), (CHR ''8'', 8),
             (CHR ''9'', 9), (CHR ''a'', 10), (CHR ''b'', 11), (CHR ''c'', 12), (CHR ''d'', 13),
             (CHR ''e'', 14), (CHR ''f'', 15),
             (CHR ''A'', 10), (CHR ''B'', 11), (CHR ''C'', 12), (CHR ''D'', 13),
             (CHR ''E'', 14), (CHR ''F'', 15)]"
    unfolding hexDigitValue_def by (rule map_of_SomeD)
  then show ?thesis by auto
qed

lemma lower_is_hex:
  assumes "isLowerHexDigit c"
  shows "isHexDigit c"
proof -
  from assms have "c = CHR ''0'' \<or> c = CHR ''1'' \<or> c = CHR ''2'' \<or> c = CHR ''3''
      \<or> c = CHR ''4'' \<or> c = CHR ''5'' \<or> c = CHR ''6'' \<or> c = CHR ''7'' \<or> c = CHR ''8''
      \<or> c = CHR ''9'' \<or> c = CHR ''a'' \<or> c = CHR ''b'' \<or> c = CHR ''c'' \<or> c = CHR ''d''
      \<or> c = CHR ''e'' \<or> c = CHR ''f''"
    by (simp add: isLowerHexDigit_def)
  then show ?thesis
    by (elim disjE) (simp_all add: isHexDigit_def hexDigitValue_def)
qed

lemma length_toHexString: "length (toHexString bs) = 2 * length bs"
  by (induction bs) (simp_all add: toHexString_def)

lemma toHexString_lower: "list_all isLowerHexDigit (toHexString bs)"
  by (induction bs) (simp_all add: toHexString_def hexChar_is_lower)

lemma toHexString_fromHex:
  "list_all isLowerHexDigit s \<Longrightarrow> even (length s) \<Longrightarrow> toHexString (fromHex s) = s"
proof (induction s rule: fromHex.induct)
  case (1 a b cs)
  from 1 have la: "isLowerHexDigit a" and lb: "isLowerHexDigit b" by simp_all
  obtain va where va: "hexDigitValue a = Some va"
    using lower_is_hex [OF la] by (auto simp: isHexDigit_def)
  obtain vb where vb: "hexDigitValue b = Some vb"
    using lower_is_hex [OF lb] by (auto simp: isHexDigit_def)
  have ba: "va < 16" and bb: "vb < 16"
    using va vb by (auto dest: hexDigitValue_bound)
  have d: "(16 * va + vb) div 16 = va" and m: "(16 * va + vb) mod 16 = vb"
    using ba bb by auto
  have ha: "hexChar va = a" using la va by (rule hexChar_lower)
  have hb: "hexChar vb = b" using lb vb by (rule hexChar_lower)
  have rest: "toHexString (fromHex cs) = cs" using 1 by simp
  have "toHexString (fromHex (a # b # cs)) =
      hexChar ((16 * va + vb) div 16) # hexChar ((16 * va + vb) mod 16) # toHexString (fromHex cs)"
    by (simp add: toHexString_def va vb)
  then show ?case by (simp only: d m ha hb rest)
qed (simp_all add: toHexString_def)

text \<open>
  Claim C5, amended. An identifier of 24 lower-case hexadecimal digits gives the lookup
  on the primary key, with the twelve bytes it denotes; every other string, the empty
  one too, gives the lookup on the legacy \<^verbatim>\<open>id\<close> attribute with the string itself. The
  equation holds for every string, so the function never fails, an exception of the
  driver ends in the legacy lookup, and the key depends on the identifier alone.
\<close>

theorem getPresetQuery_amended:
  "getPresetQuery legacy12 ident =
     (if length ident = 24 \<and> list_all isLowerHexDigit ident
      then PrimaryKey (ObjectId (fromHex ident))
      else LegacyKey ident)"
proof (cases "length ident = 24 \<and> list_all isLowerHexDigit ident")
  case True
  then have hex: "list_all isHexDigit ident"
    by (auto simp: list_all_iff lower_is_hex)
  have new: "newObjectId legacy12 ident = Some (ObjectId (fromHex ident))"
    using True hex by (simp add: newObjectId_def)
  have "toHexString (fromHex ident) = ident"
    using True by (intro toHexString_fromHex) simp_all
  then show ?thesis
    using True new
    by (simp add: getPresetQuery_def getPresetQuery_try_def ObjectId_isValid_def
        ObjectId_toString_def)
next
  case False
  have no: "getPresetQuery_try legacy12 ident \<noteq> Returned k" for k
  proof
    assume r: "getPresetQuery_try legacy12 ident = Returned k"
    then obtain oid where oid: "newObjectId legacy12 ident = Some oid"
      and same: "ObjectId_toString oid = ident"
      by (auto simp: getPresetQuery_try_def split: if_splits option.splits)
    have len: "length ident = 2 * length (bytes oid)"
      using same length_toHexString [of "bytes oid"] by (simp add: ObjectId_toString_def)
    have low: "list_all isLowerHexDigit ident"
      using same toHexString_lower [of "bytes oid"] by (simp add: ObjectId_toString_def)
    have "length ident = 24"
    proof (cases "length ident = 24 \<and> list_all isHexDigit ident")
      case True
      then show ?thesis by simp
    next
      case other: False
      with oid have "length ident = 12" and "oid = ObjectId (map of_char ident)"
        by (auto simp: newObjectId_def split: if_splits)
      then have "length (bytes oid) = 12" by simp
      with len \<open>length ident = 12\<close> show ?thesis by simp
    qed
    with low False show False by simp
  qed
  have "getPresetQuery legacy12 ident = LegacyKey ident"
    by (cases "getPresetQuery_try legacy12 ident") (simp_all add: getPresetQuery_def no)
  with False show ?thesis by simp
qed

text \<open>
  Claim C5, as stated, fails on 24 hexadecimal digits that are not all lower-case: the
  driver accepts them, but they do not print back as themselves, and the source then
  takes the legacy lookup.
\<close>

theorem getPresetQuery_counterexample:
  "length ''AAAAAAAAAAAAAAAAAAAAAAAA'' = 24
   \<and> list_all isHexDigit ''AAAAAAAAAAAAAAAAAAAAAAAA''
   \<and> getPresetQuery True ''AAAAAAAAAAAAAAAAAAAAAAAA'' = LegacyKey ''AAAAAAAAAAAAAAAAAAAAAAAA''
   \<and> getPresetQuery False ''AAAAAAAAAAAAAAAAAAAAAAAA'' = LegacyKey ''AAAAAAAAAAAAAAAAAAAAAAAA''"
  by (simp add: getPresetQuery_def getPresetQuery_try_def ObjectId_isValid_def newObjectId_def
      ObjectId_toString_def toHexString_def hexChar_def isHexDigit_def hexDigitValue_def)

theorem getPresetQuery_amended_witness:
  "getPresetQuery False ''507f1f77bcf86cd799439011''
     = PrimaryKey (ObjectId [80, 127, 31, 119, 188, 248, 108, 215, 153, 67, 144, 17])
   \<and> getPresetQuery True ''default-1'' = LegacyKey ''default-1''
   \<and> getPresetQuery True [] = LegacyKey []"
  using getPresetQuery_amended [of False "''507f1f77bcf86cd799439011''"]
    getPresetQuery_amended [of True "''default-1''"]
    getPresetQuery_amended [of True "[]"]
  by (simp add: isLowerHexDigit_def hexDigitValue_def)

section \<open>Preset search\<close>

text \<open>
  Claim C6. A blank query returns every preset, and the query \<^verbatim>\<open>cinn\<close> finds the
  preset with the ingredient Cinnamon, as the claim says. The match is stated to be a
  substring test, and the source comment calls it a partial match, but the trimmed query
  goes to the store as a regular expression with nothing escaped: the query \<^verbatim>\<open>sp.ces\<close>
  is no substring of any field of the preset Spices and finds it all the same.
\<close>

theorem searchPresets_reads_query_as_pattern:
  "searchPresets [\<lparr>p_id = ''1'', p_name = ''Spices'', brandName = None, ingredients = [''Cinnamon'']\<rparr>]
      (Some ''sp.ces'')
     = Some [\<lparr>p_id = ''1'', p_name = ''Spices'', brandName = None, ingredients = [''Cinnamon'']\<rparr>]
   \<and> \<not> spec_substringMatch
        \<lparr>p_id = ''1'', p_name = ''Spices'', brandName = None, ingredients = [''Cinnamon'']\<rparr>
        ''sp.ces''
   \<and> searchPresets [\<lparr>p_id = ''1'', p_name = ''Spices'', brandName = None, ingredients = [''Cinnamon'']\<rparr>]
      (Some ''cinn'')
     = Some [\<lparr>p_id = ''1'', p_name = ''Spices'', brandName = None, ingredients = [''Cinnamon'']\<rparr>]
   \<and> searchPresets [\<lparr>p_id = ''1'', p_name = ''Spices'', brandName = None, ingredients = [''Cinnamon'']\<rparr>]
      (Some ''  '')
     = Some [\<lparr>p_id = ''1'', p_name = ''Spices'', brandName = None, ingredients = [''Cinnamon'']\<rparr>]"
  by (simp add: searchPresets_def regexMatchesPreset_def spec_substringMatch_def rx_special_def
      trim_def isWhiteSpace_def toLowerCase_def toLowerChar_def)

section \<open>Sections of the two renderings\<close>

lemma trim_eq_Nil_iff: "trim s = [] \<longleftrightarrow> (\<forall>c\<in>set s. isWhiteSpace c)"
proof
  assume e: "trim s = []"
  obtain w1 w2 where "s = w1 @ trim s @ w2"
    and "\<forall>c\<in>set w1. isWhiteSpace c" and "\<forall>c\<in>set w2. isWhiteSpace c"
    using trim_decompose by blast
  with e have "s = w1 @ w2" by simp
  with \<open>\<forall>c\<in>set w1. isWhiteSpace c\<close> \<open>\<forall>c\<in>set w2. isWhiteSpace c\<close>
  show "\<forall>c\<in>set s. isWhiteSpace c" by auto
next
  assume "\<forall>c\<in>set s. isWhiteSpace c"
  then show "trim s = []" by (rule trim_all_ws)
qed

lemma filter_dropWhile_not: "filter (\<lambda>c. \<not> P c) (dropWhile P xs) = filter (\<lambda>c. \<not> P c) xs"
  by (induction xs) auto

lemma filter_collapseWhiteSpace:
  "filter (\<lambda>c. \<not> isWhiteSpace c) (collapseWhiteSpace s) = filter (\<lambda>c. \<not> isWhiteSpace c) s"
  by (induction s rule: collapseWhiteSpace.induct) (simp_all add: filter_dropWhile_not)

lemma stripBrackets_eq_Nil_iff:
  "stripBracketsFromIngredients t = [] \<longleftrightarrow> (\<forall>c\<in>set t. isWhiteSpace c)"
proof -
  have "(\<forall>c\<in>set (collapseWhiteSpace t). isWhiteSpace c) \<longleftrightarrow> (\<forall>c\<in>set t. isWhiteSpace c)"
    using filter_collapseWhiteSpace [of t] by (metis filter_empty_conv)
  then show ?thesis
    by (cases "t = []") (simp_all add: stripBracketsFromIngredients_def trim_eq_Nil_iff)
qed

lemma join_Cons_ne: "x \<noteq> [] \<Longrightarrow> join sep (x # xs) \<noteq> []"
  by (cases xs) simp_all

lemma productNameHtml_iff: "productNameHtml label \<noteq> [] \<longleftrightarrow> name label \<noteq> []"
  by (simp add: productNameHtml_def productNameDiv_def)

lemma ingredientsHtml_iff:
  "ingredientsHtml label \<noteq> [] \<longleftrightarrow>
     stripBracketsFromIngredients (textOrIngredientsText label) \<noteq> []"
  by (simp add: ingredientsHtml_def ingredientsDiv_def Let_def)

lemma allergenHtml_iff: "allergenHtml label \<noteq> [] \<longleftrightarrow> allergens label \<noteq> []"
  by (simp add: allergenHtml_def allergenDiv_def codes_def Let_def)

lemma businessInfoHtml_iff: "businessInfoHtml label \<noteq> [] \<longleftrightarrow> businessName label \<noteq> []"
  by (simp add: businessInfoHtml_def businessInfoDiv_def)

lemma netQuantityHtml_iff: "netQuantityHtml label \<noteq> [] \<longleftrightarrow> netQuantity label \<noteq> []"
  by (simp add: netQuantityHtml_def netQuantityDiv_def)

lemma cottageHtml_iff: "cottageHtml label \<noteq> [] \<longleftrightarrow> includeCottageDisclaimer label"
  by (simp add: cottageHtml_def cottageDiv_def)

lemma pushBusiness_eq:
  "pushBusiness label lines =
     (if businessName label \<noteq> []
      then lines @ [join '', '' (filter (\<lambda>p. p \<noteq> [])
                [businessName label, businessAddress label, businessCity label,
                 businessState label, businessZip label, businessPhone label])]
      else lines)"
  by (simp add: pushBusiness_def Let_def join_Cons_ne)

text \<open>
  Where the fallback to \<^verbatim>\<open>ingredientsText\<close> plays no part (the label has a \<^verbatim>\<open>text\<close>, or
  no \<^verbatim>\<open>ingredientsText\<close>), the plain text is one line for each section that the rich
  markup has, in the order of the rich markup, with the field values as they are, and a
  section is there exactly when its data is.
\<close>

lemma plain_text_sections_without_fallback:
  assumes "labelText label \<noteq> [] \<or> ingredientsText label = []"
  shows "buildFullLabelText label = join [CHR 0x0A] (spec_plainLines label)
   \<and> (productNameHtml label \<noteq> [] \<longleftrightarrow> name label \<noteq> [])
   \<and> (ingredientsHtml label \<noteq> [] \<longleftrightarrow> (\<exists>c\<in>set (labelText label). \<not> isWhiteSpace c))
   \<and> (allergenHtml label \<noteq> [] \<longleftrightarrow> allergens label \<noteq> [])
   \<and> (businessInfoHtml label \<noteq> [] \<longleftrightarrow> businessName label \<noteq> [])
   \<and> (netQuantityHtml label \<noteq> [] \<longleftrightarrow> netQuantity label \<noteq> [])
   \<and> (cottageHtml label \<noteq> [] \<longleftrightarrow> includeCottageDisclaimer label)"
proof -
  have src: "textOrIngredientsText label = labelText label"
    using assms by (auto simp: textOrIngredientsText_def)
  have "buildFullLabelText_lines label = spec_plainLines label"
    by (simp add: buildFullLabelText_lines_def spec_plainLines_def pushName_def pushIngredients_def
        pushAllergens_def pushBusiness_eq pushNetQuantity_def pushCottage_def Let_def
        productNameHtml_iff ingredientsHtml_iff src allergenHtml_iff businessInfoHtml_iff
        netQuantityHtml_iff cottageHtml_iff)
  then show ?thesis
    by (simp add: buildFullLabelText_def productNameHtml_iff ingredientsHtml_iff src
        stripBrackets_eq_Nil_iff allergenHtml_iff businessInfoHtml_iff netQuantityHtml_iff
        cottageHtml_iff)
qed

lemma stripBrackets_Flour: "stripBracketsFromIngredients ''Flour'' = ''Flour''"
  by (simp add: stripBracketsFromIngredients_def trim_def isWhiteSpace_def)

lemma splitTopLevel_Flour: "splitTopLevel ''Flour'' = [''Flour'']"
  by (simp add: splitTopLevel_def split_finish_def split_step_def split_init_def trim_def
      isWhiteSpace_def)

text \<open>
  Claim C7. The plain text is stated to have the sections of the rich markup.
  \<^verbatim>\<open>buildFormattedLabelHtml\<close> takes the ingredient expression from
  \<^verbatim>\<open>label.text || label.ingredientsText || ""\<close>, and \<^verbatim>\<open>buildFullLabelText\<close> from
  \<^verbatim>\<open>label.text\<close> alone. For the label with the name \<^verbatim>\<open>Jam\<close>, no \<^verbatim>\<open>text\<close> and the
  \<^verbatim>\<open>ingredientsText\<close> \<^verbatim>\<open>Flour\<close>, the rich markup has the ingredients section, the same
  markup as for the label whose \<^verbatim>\<open>text\<close> is \<^verbatim>\<open>Flour\<close>, and the plain text is the name
  alone, with no ingredients line.
\<close>

theorem plain_text_misses_ingredientsText:
  "buildFormattedLabelHtml
     \<lparr>name = ''Jam'', labelText = [], ingredientsText = ''Flour'', allergens = [],
      allergenDetails = [], businessName = [], businessAddress = [], businessCity = [],
      businessState = [], businessZip = [], businessPhone = [], netQuantity = [],
      netQuantityUnit = [], includeCottageDisclaimer = False\<rparr>
     = labelDiv (codes (productNameDiv ''Jam'') @ codes (ingredientsDiv ''<strong>Flour</strong>''))
   \<and> buildFormattedLabelHtml
     \<lparr>name = ''Jam'', labelText = ''Flour'', ingredientsText = [], allergens = [],
      allergenDetails = [], businessName = [], businessAddress = [], businessCity = [],
      businessState = [], businessZip = [], businessPhone = [], netQuantity = [],
      netQuantityUnit = [], includeCottageDisclaimer = False\<rparr>
     = labelDiv (codes (productNameDiv ''Jam'') @ codes (ingredientsDiv ''<strong>Flour</strong>''))
   \<and> isSubstring ''Ingredients:'' (ingredientsDiv ''<strong>Flour</strong>'')
   \<and> buildFullLabelText
     \<lparr>name = ''Jam'', labelText = ''Flour'', ingredientsText = [], allergens = [],
      allergenDetails = [], businessName = [], businessAddress = [], businessCity = [],
      businessState = [], businessZip = [], businessPhone = [], netQuantity = [],
      netQuantityUnit = [], includeCottageDisclaimer = False\<rparr>
     = join [CHR 0x0A] [''Jam'', ''Ingredients: Flour'']
   \<and> buildFullLabelText
     \<lparr>name = ''Jam'', labelText = [], ingredientsText = ''Flour'', allergens = [],
      allergenDetails = [], businessName = [], businessAddress = [], businessCity = [],
      businessState = [], businessZip = [], businessPhone = [], netQuantity = [],
      netQuantityUnit = [], includeCottageDisclaimer = False\<rparr>
     = ''Jam''"
proof -
  have fmt: "formatIngredientsWithBoldPresetNames ''Flour'' = ''<strong>Flour</strong>''"
    by (simp add: formatIngredientsWithBoldPresetNames_def formatPart_def splitTopLevel_Flour
        escapeHtml_def escapeChar_def)
  have esc: "escapeHtml ''Jam'' = ''Jam''"
    by (simp add: escapeHtml_def escapeChar_def)
  have sec: "isSubstring ''Ingredients:'' (ingredientsDiv ''<strong>Flour</strong>'')"
    by (simp add: ingredientsDiv_def sectionMargin_def smallFontSize_def fontFamily_def)
  have empty: "stripBracketsFromIngredients [] = []"
    by (simp add: stripBracketsFromIngredients_def)
  show ?thesis
    using sec
    by (simp add: buildFormattedLabelHtml_def productNameHtml_def ingredientsHtml_def
        allergenHtml_def businessInfoHtml_def netQuantityHtml_def cottageHtml_def
        textOrIngredientsText_def stripBrackets_Flour empty fmt esc codes_def
        buildFullLabelText_def buildFullLabelText_lines_def pushName_def pushIngredients_def
        pushAllergens_def pushBusiness_def pushNetQuantity_def pushCottage_def Let_def)
qed

section \<open>The allergen line in the two renderings\<close>


lemma codes_Nil [simp]: "codes [] = []"
  by (simp add: codes_def)














text \<open>\<^verbatim>\<open>escapeHtml\<close> on code points is \<^verbatim>\<open>escapeHtml\<close> on the strings of the model.\<close>

lemma escapeCode_of_char: "escapeCode (of_char c) = codes (escapeChar c)"
proof -
  have a: "(of_char c :: nat) = 38 \<longleftrightarrow> c = CHR ''&''"
    using of_char_eq_iff [of c "CHR ''&''", where ?'a = nat] by simp
  have b: "(of_char c :: nat) = 160 \<longleftrightarrow> c = CHR 0xA0"
    using of_char_eq_iff [of c "CHR 0xA0", where ?'a = nat] by simp
  have d: "(of_char c :: nat) = 60 \<longleftrightarrow> c = CHR ''<''"
    using of_char_eq_iff [of c "CHR ''<''", where ?'a = nat] by simp
  have e: "(of_char c :: nat) = 62 \<longleftrightarrow> c = CHR ''>''"
    using of_char_eq_iff [of c "CHR ''>''", where ?'a = nat] by simp
  show ?thesis
    by (simp add: escapeCode_def escapeChar_def a b d e codes_def)
qed

lemma escapeHtmlCodes_codes: "escapeHtmlCodes (codes s) = codes (escapeHtml s)"
  by (induction s) (simp_all add: escapeHtmlCodes_def escapeHtml_def codes_def
      escapeCode_of_char [unfolded codes_def])







section \<open>Rendering leaves the label and the page as they are\<close>

lemma onlyCreates_refl [simp]: "onlyCreates s s"
proof -
  have "s = s\<lparr>createdElements := createdElements s @ []\<rparr>" by simp
  then show ?thesis unfolding onlyCreates_def by blast
qed

lemma onlyCreates_trans: "onlyCreates s s1 \<Longrightarrow> onlyCreates s1 s2 \<Longrightarrow> onlyCreates s s2"
proof -
  assume "onlyCreates s s1" and "onlyCreates s1 s2"
  then obtain es fs where a: "s1 = s\<lparr>createdElements := createdElements s @ es\<rparr>"
    and b: "s2 = s1\<lparr>createdElements := createdElements s1 @ fs\<rparr>"
    unfolding onlyCreates_def by blast
  then have "s2 = s\<lparr>createdElements := createdElements s @ (es @ fs)\<rparr>" by simp
  then show ?thesis unfolding onlyCreates_def by blast
qed

lemma onlyCreates_frame:
  "onlyCreates s s' \<Longrightarrow> labelObjects s' = labelObjects s \<and> documentBody s' = documentBody s"
  unfolding onlyCreates_def by auto

lemma escapeHtml_run_fst [simp]: "fst (escapeHtml_run t s) = escapeHtml t"
  by (simp add: escapeHtml_run_def)

lemma escapeHtml_run_creates [simp]: "onlyCreates s (snd (escapeHtml_run t s))"
  unfolding onlyCreates_def escapeHtml_run_def by auto

lemma escapeHtmlCodes_run_fst [simp]: "fst (escapeHtmlCodes_run t s) = escapeHtmlCodes t"
  by (simp add: escapeHtmlCodes_run_def)

lemma escapeHtmlCodes_run_creates [simp]: "onlyCreates s (snd (escapeHtmlCodes_run t s))"
  unfolding onlyCreates_def escapeHtmlCodes_run_def by auto

lemma formatPart_run_fst [simp]: "fst (formatPart_run part s) = formatPart part"
  by (simp add: formatPart_run_def formatPart_def Let_def escapeHtml_run_def)

lemma formatPart_run_creates [simp]: "onlyCreates s (snd (formatPart_run part s))"
  by (simp add: formatPart_run_def Let_def split_beta)

lemma map_run_fst:
  assumes "\<And>x s. fst (f x s) = g x"
  shows "fst (map_run f xs s) = map g xs"
proof (induction xs arbitrary: s)
  case Nil
  show ?case by simp
next
  case (Cons x xs)
  have "fst (f x s) = g x" by (rule assms)
  moreover have "fst (map_run f xs (snd (f x s))) = map g xs" by (rule Cons.IH)
  ultimately show ?case by (simp add: split_beta)
qed

lemma map_run_creates:
  assumes "\<And>x s. onlyCreates s (snd (f x s))"
  shows "onlyCreates s (snd (map_run f xs s))"
proof (induction xs arbitrary: s)
  case Nil
  show ?case by simp
next
  case (Cons x xs)
  have "onlyCreates s (snd (f x s))" by (rule assms)
  moreover have "onlyCreates (snd (f x s)) (snd (map_run f xs (snd (f x s))))" by (rule Cons.IH)
  ultimately have "onlyCreates s (snd (map_run f xs (snd (f x s))))" by (rule onlyCreates_trans)
  then show ?case by (simp add: split_beta)
qed

lemma formatIngredients_run_fst [simp]:
  "fst (formatIngredientsWithBoldPresetNames_run t s) = formatIngredientsWithBoldPresetNames t"
  by (simp add: formatIngredientsWithBoldPresetNames_run_def formatIngredientsWithBoldPresetNames_def
      split_beta map_run_fst [where g = formatPart])

lemma formatIngredients_run_creates [simp]:
  "onlyCreates s (snd (formatIngredientsWithBoldPresetNames_run t s))"
  by (simp add: formatIngredientsWithBoldPresetNames_run_def split_beta map_run_creates)

lemma section_run_fst [simp]:
  "fst (productNameHtml_run label s) = productNameHtml label"
  "fst (ingredientsHtml_run label s) = ingredientsHtml label"
  "fst (allergenHtml_run label s) = allergenHtml label"
  "fst (businessInfoHtml_run label s) = businessInfoHtml label"
  "fst (netQuantityHtml_run label s) = netQuantityHtml label"
  by (simp_all add: productNameHtml_run_def productNameHtml_def ingredientsHtml_run_def
      ingredientsHtml_def allergenHtml_run_def allergenHtml_def businessInfoHtml_run_def
      businessInfoHtml_def netQuantityHtml_run_def netQuantityHtml_def Let_def split_beta)

lemma netQuantityHtml_run_creates: "onlyCreates s (snd (netQuantityHtml_run label s))"
proof (cases "netQuantity label = []")
  case True
  then show ?thesis by (simp add: netQuantityHtml_run_def)
next
  case False
  let ?s1 = "snd (escapeHtml_run (netQuantity label) s)"
  have "onlyCreates s ?s1" by simp
  moreover have "onlyCreates ?s1 (snd (escapeHtml_run (netQuantityUnitOrDefault label) ?s1))"
    by simp
  ultimately have "onlyCreates s (snd (escapeHtml_run (netQuantityUnitOrDefault label) ?s1))"
    by (rule onlyCreates_trans)
  with False show ?thesis by (simp add: netQuantityHtml_run_def split_beta)
qed

lemma section_run_creates [simp]:
  "onlyCreates s (snd (productNameHtml_run label s))"
  "onlyCreates s (snd (ingredientsHtml_run label s))"
  "onlyCreates s (snd (allergenHtml_run label s))"
  "onlyCreates s (snd (businessInfoHtml_run label s))"
  "onlyCreates s (snd (netQuantityHtml_run label s))"
  by (simp_all add: productNameHtml_run_def ingredientsHtml_run_def allergenHtml_run_def
      businessInfoHtml_run_def netQuantityHtml_run_creates Let_def split_beta)

lemma buildFormattedLabelHtml_run_eq:
  assumes "labelObjects s ref = Some label"
  shows "\<exists>s'. buildFormattedLabelHtml_run ref s = Some (buildFormattedLabelHtml label, s')
            \<and> onlyCreates s s'"
proof -
  let ?s1 = "snd (productNameHtml_run label s)"
  let ?s2 = "snd (ingredientsHtml_run label ?s1)"
  let ?s3 = "snd (allergenHtml_run label ?s2)"
  let ?s4 = "snd (businessInfoHtml_run label ?s3)"
  let ?s5 = "snd (netQuantityHtml_run label ?s4)"
  have "onlyCreates s ?s1" by simp
  moreover have "onlyCreates ?s1 ?s2" by simp
  ultimately have "onlyCreates s ?s2" by (rule onlyCreates_trans)
  moreover have "onlyCreates ?s2 ?s3" by simp
  ultimately have "onlyCreates s ?s3" by (rule onlyCreates_trans)
  moreover have "onlyCreates ?s3 ?s4" by simp
  ultimately have "onlyCreates s ?s4" by (rule onlyCreates_trans)
  moreover have "onlyCreates ?s4 ?s5" by simp
  ultimately have c: "onlyCreates s ?s5" by (rule onlyCreates_trans)
  have "buildFormattedLabelHtml_run ref s = Some (buildFormattedLabelHtml label, ?s5)"
    using assms
    by (simp add: buildFormattedLabelHtml_run_def buildFormattedLabelHtml_def split_beta)
  with c show ?thesis by blast
qed

lemma render_run_eq:
  assumes "labelObjects s ref = Some label"
  shows "\<exists>s'. render_run ref s =
             Some (\<lparr>storageText = stripBracketsFromIngredients (labelText label),
                    richMarkup = buildFormattedLabelHtml label,
                    plainText = buildFullLabelText label\<rparr>, s')
            \<and> onlyCreates s s'"
proof -
  obtain s' where h: "buildFormattedLabelHtml_run ref s = Some (buildFormattedLabelHtml label, s')"
    and c: "onlyCreates s s'"
    using buildFormattedLabelHtml_run_eq [OF assms] by blast
  have "labelObjects s' ref = Some label"
    using onlyCreates_frame [OF c] assms by simp
  then show ?thesis
    using assms h c
    by (simp add: render_run_def storageText_run_def buildFullLabelText_run_def)
qed

text \<open>
  Claim C9. Rendering a label that the store holds returns the three representations,
  which are functions of the value of the label alone. A second rendering, run in the
  store that the first one left, returns the same three strings. Each rendering leaves
  every label object and the page as they were: all it does to the store is to create
  the elements which \<^verbatim>\<open>escapeHtml\<close> serialises and never attaches.
\<close>

theorem render_twice_same_output_store_kept:
  assumes "labelObjects s ref = Some label"
  shows "\<exists>out s1 s2.
           render_run ref s = Some (out, s1) \<and> render_run ref s1 = Some (out, s2)
         \<and> out = \<lparr>storageText = stripBracketsFromIngredients (labelText label),
                   richMarkup = buildFormattedLabelHtml label,
                   plainText = buildFullLabelText label\<rparr>
         \<and> onlyCreates s s1 \<and> onlyCreates s1 s2
         \<and> labelObjects s1 = labelObjects s \<and> documentBody s1 = documentBody s
         \<and> labelObjects s2 = labelObjects s \<and> documentBody s2 = documentBody s"
proof -
  obtain s1 where r1: "render_run ref s =
             Some (\<lparr>storageText = stripBracketsFromIngredients (labelText label),
                    richMarkup = buildFormattedLabelHtml label,
                    plainText = buildFullLabelText label\<rparr>, s1)"
    and c1: "onlyCreates s s1"
    using render_run_eq [OF assms] by blast
  have f1: "labelObjects s1 = labelObjects s \<and> documentBody s1 = documentBody s"
    using c1 by (rule onlyCreates_frame)
  then have a1: "labelObjects s1 ref = Some label" using assms by simp
  obtain s2 where r2: "render_run ref s1 =
             Some (\<lparr>storageText = stripBracketsFromIngredients (labelText label),
                    richMarkup = buildFormattedLabelHtml label,
                    plainText = buildFullLabelText label\<rparr>, s2)"
    and c2: "onlyCreates s1 s2"
    using render_run_eq [OF a1] by blast
  have f2: "labelObjects s2 = labelObjects s1 \<and> documentBody s2 = documentBody s1"
    using c2 by (rule onlyCreates_frame)
  show ?thesis
    using r1 r2 c1 c2 f1 f2 by simp
qed

theorem render_twice_same_output_store_kept_witness:
  "labelObjects
     \<lparr>labelObjects = (\<lambda>r. if r = 0 then Some
         \<lparr>name = ''Jam'', labelText = ''Fruit,  Sugar'', ingredientsText = [],
          allergens = [], allergenDetails = [],
          businessName = [], businessAddress = [], businessCity = [], businessState = [],
          businessZip = [], businessPhone = [], netQuantity = [], netQuantityUnit = [],
          includeCottageDisclaimer = False\<rparr> else None),
      documentBody = ''page'', createdElements = []\<rparr> 0
     = Some \<lparr>name = ''Jam'', labelText = ''Fruit,  Sugar'', ingredientsText = [],
          allergens = [], allergenDetails = [],
          businessName = [], businessAddress = [], businessCity = [], businessState = [],
          businessZip = [], businessPhone = [], netQuantity = [], netQuantityUnit = [],
          includeCottageDisclaimer = False\<rparr>
   \<and> (\<exists>out s1 s2.
         render_run 0
           \<lparr>labelObjects = (\<lambda>r. if r = 0 then Some
               \<lparr>name = ''Jam'', labelText = ''Fruit,  Sugar'', ingredientsText = [],
          allergens = [], allergenDetails = [],
                businessName = [], businessAddress = [], businessCity = [], businessState = [],
                businessZip = [], businessPhone = [], netQuantity = [], netQuantityUnit = [],
                includeCottageDisclaimer = False\<rparr> else None),
            documentBody = ''page'', createdElements = []\<rparr> = Some (out, s1)
       \<and> render_run 0 s1 = Some (out, s2)
       \<and> storageText out = ''Fruit, Sugar''
       \<and> plainText out = join [CHR 0x0A] [''Jam'', ''Ingredients: Fruit, Sugar'']
       \<and> documentBody s1 = ''page'' \<and> documentBody s2 = ''page'')"
proof -
  let ?label = "\<lparr>name = ''Jam'', labelText = ''Fruit,  Sugar'', ingredientsText = [],
          allergens = [], allergenDetails = [],
          businessName = [], businessAddress = [], businessCity = [], businessState = [],
          businessZip = [], businessPhone = [], netQuantity = [], netQuantityUnit = [],
          includeCottageDisclaimer = False\<rparr>"
  let ?s = "\<lparr>labelObjects = (\<lambda>r. if r = 0 then Some ?label else None),
      documentBody = ''page'', createdElements = []\<rparr>"
  have h: "labelObjects ?s 0 = Some ?label" by simp
  have st0: "stripBracketsFromIngredients ''Fruit,  Sugar'' = ''Fruit, Sugar''"
    by (simp add: stripBracketsFromIngredients_def trim_def isWhiteSpace_def)
  then have st: "stripBracketsFromIngredients (labelText ?label) = ''Fruit, Sugar''"
    by simp
  have pl: "buildFullLabelText ?label = join [CHR 0x0A] [''Jam'', ''Ingredients: Fruit, Sugar'']"
    by (simp add: buildFullLabelText_def buildFullLabelText_lines_def pushName_def
        pushIngredients_def pushAllergens_def pushBusiness_def pushNetQuantity_def
        pushCottage_def st0 Let_def)
  from render_twice_same_output_store_kept [OF h]
  obtain out s1 s2 where "render_run 0 ?s = Some (out, s1)" "render_run 0 s1 = Some (out, s2)"
    "out = \<lparr>storageText = stripBracketsFromIngredients (labelText ?label),
            richMarkup = buildFormattedLabelHtml ?label,
            plainText = buildFullLabelText ?label\<rparr>"
    "documentBody s1 = documentBody ?s" "documentBody s2 = documentBody ?s"
    by blast
  then have "render_run 0 ?s = Some (out, s1) \<and> render_run 0 s1 = Some (out, s2)
       \<and> storageText out = ''Fruit, Sugar''
       \<and> plainText out = join [CHR 0x0A] [''Jam'', ''Ingredients: Fruit, Sugar'']
       \<and> documentBody s1 = ''page'' \<and> documentBody s2 = ''page''"
    using st pl by simp
  then show ?thesis using h by blast
qed

section \<open>Splitting, joining and splitting again\<close>

lemma depthAfter_append: "depthAfter d (u @ v) = depthAfter (depthAfter d u) v"
  by (induction u arbitrary: d) simp_all

lemma noSeparator_append:
  "noSeparator d (u @ v) \<longleftrightarrow> noSeparator d u \<and> noSeparator (depthAfter d u) v"
  by (induction u arbitrary: d) simp_all

lemma ws_not_special:
  "isWhiteSpace c \<Longrightarrow> c \<noteq> CHR ''('' \<and> c \<noteq> CHR '')'' \<and> c \<noteq> CHR '',''"
  using isWhiteSpace_simps by blast

lemma ws_depthAfter: "\<forall>c\<in>set w. isWhiteSpace c \<Longrightarrow> depthAfter d w = d"
  by (induction w arbitrary: d) (simp_all add: ws_not_special)

lemma ws_noSeparator: "\<forall>c\<in>set w. isWhiteSpace c \<Longrightarrow> noSeparator d w"
  by (induction w arbitrary: d) (simp_all add: ws_not_special)

lemma trim_profile:
  "depthAfter d (trim x) = depthAfter d x \<and> (noSeparator d x \<longrightarrow> noSeparator d (trim x))"
proof -
  obtain w1 w2 where x: "x = w1 @ trim x @ w2"
    and w1: "\<forall>c\<in>set w1. isWhiteSpace c" and w2: "\<forall>c\<in>set w2. isWhiteSpace c"
    using trim_decompose by blast
  have "depthAfter d x = depthAfter d (w1 @ trim x @ w2)" using x by simp
  also have "\<dots> = depthAfter d (trim x)"
    using w1 w2 by (simp add: depthAfter_append ws_depthAfter)
  finally have a: "depthAfter d (trim x) = depthAfter d x" by simp
  have "noSeparator d x \<longleftrightarrow> noSeparator d (w1 @ trim x @ w2)" using x by simp
  also have "\<dots> \<longleftrightarrow> noSeparator d (trim x)"
    using w1 w2 by (simp add: noSeparator_append ws_depthAfter ws_noSeparator)
  finally show ?thesis using a by simp
qed

lemma split_step_other:
  "\<not> (c = CHR '','' \<and> parenDepth st = 0) \<Longrightarrow>
   split_step st c = \<lparr>parts = parts st, current = current st @ [c],
      parenDepth = (if c = CHR ''('' then parenDepth st + 1
                    else if c = CHR '')'' then parenDepth st - 1 else parenDepth st)\<rparr>"
  by (auto simp: split_step_def Let_def)

lemma split_step_comma:
  "parenDepth st = 0 \<Longrightarrow>
   split_step st (CHR '','') = \<lparr>parts = parts st @ [trim (current st)], current = [], parenDepth = 0\<rparr>"
  by (simp add: split_step_def Let_def)

lemma scan_noSeparator:
  "noSeparator d w \<Longrightarrow>
   foldl split_step \<lparr>parts = P, current = C, parenDepth = d\<rparr> w
     = \<lparr>parts = P, current = C @ w, parenDepth = depthAfter d w\<rparr>"
proof (induction w arbitrary: C d)
  case Nil
  then show ?case by simp
next
  case (Cons c w)
  let ?d = "if c = CHR ''('' then d + 1 else if c = CHR '')'' then d - 1 else d"
  from Cons.prems have nc: "\<not> (c = CHR '','' \<and> d = 0)" and rest: "noSeparator ?d w"
    by simp_all
  have "split_step \<lparr>parts = P, current = C, parenDepth = d\<rparr> c
        = \<lparr>parts = P, current = C @ [c], parenDepth = ?d\<rparr>"
    using nc by (simp add: split_step_other)
  then have "foldl split_step \<lparr>parts = P, current = C, parenDepth = d\<rparr> (c # w)
        = foldl split_step \<lparr>parts = P, current = C @ [c], parenDepth = ?d\<rparr> w"
    by simp
  also have "\<dots> = \<lparr>parts = P, current = (C @ [c]) @ w, parenDepth = depthAfter ?d w\<rparr>"
    using rest by (rule Cons.IH)
  finally show ?case by simp
qed

lemma closed_open: "closedItem x \<Longrightarrow> openItem x"
  by (simp add: closedItem_def openItem_def)

lemma scanInv_init: "scanInv split_init"
  by (simp add: scanInv_def split_init_def)

lemma scanInv_step:
  assumes "scanInv st"
  shows "scanInv (split_step st c)"
proof (cases "c = CHR '','' \<and> parenDepth st = 0")
  case True
  then have d0: "depthAfter 0 (current st) = 0" using assms by (simp add: scanInv_def)
  have ns: "noSeparator 0 (current st)" using assms by (simp add: scanInv_def)
  have "closedItem (trim (current st))"
    using trim_profile [of 0 "current st"] d0 ns by (simp add: closedItem_def)
  then show ?thesis
    using True assms by (simp add: split_step_comma scanInv_def)
next
  case False
  let ?d = "if c = CHR ''('' then parenDepth st + 1
            else if c = CHR '')'' then parenDepth st - 1 else parenDepth st"
  have eq: "split_step st c = \<lparr>parts = parts st, current = current st @ [c], parenDepth = ?d\<rparr>"
    using False by (rule split_step_other)
  have pd: "parenDepth st = depthAfter 0 (current st)" using assms by (simp add: scanInv_def)
  have "noSeparator 0 (current st @ [c])"
    using assms False pd by (auto simp: scanInv_def noSeparator_append)
  moreover have "depthAfter 0 (current st @ [c]) = ?d"
    using pd by (simp add: depthAfter_append)
  ultimately show ?thesis
    using assms by (simp add: eq scanInv_def)
qed

lemma scanInv_foldl: "scanInv st \<Longrightarrow> scanInv (foldl split_step st s)"
  by (induction s arbitrary: st) (simp_all add: scanInv_step)

text \<open>
  Every item of a split is trimmed and has no comma at depth zero, and every item but
  the last brings the depth back to zero.
\<close>

lemma splitTopLevel_items:
  "(\<forall>x\<in>set (butlast (splitTopLevel s)). closedItem x)
   \<and> (splitTopLevel s \<noteq> [] \<longrightarrow> openItem (last (splitTopLevel s)))"
proof -
  let ?st = "foldl split_step split_init s"
  have inv: "scanInv ?st" using scanInv_init by (rule scanInv_foldl)
  then have cl: "\<forall>p\<in>set (parts ?st). closedItem p" by (simp add: scanInv_def)
  have "openItem (trim (current ?st))"
    using inv trim_profile [of 0 "current ?st"] by (simp add: scanInv_def openItem_def)
  with cl show ?thesis
    by (auto simp: splitTopLevel_def split_finish_def closed_open dest: in_set_butlastD)
qed

lemma rejoin_scan:
  assumes "\<forall>x\<in>set (butlast (x # xs)). closedItem x" and "openItem (last (x # xs))"
    and "\<forall>c\<in>set C. isWhiteSpace c"
  shows "\<exists>C'. (\<forall>c\<in>set C'. isWhiteSpace c) \<and>
          foldl split_step \<lparr>parts = P, current = C, parenDepth = 0\<rparr> (join '', '' (x # xs))
          = \<lparr>parts = P @ butlast (x # xs), current = C' @ last (x # xs),
             parenDepth = depthAfter 0 (last (x # xs))\<rparr>"
  using assms
proof (induction xs arbitrary: x P C)
  case Nil
  then have "noSeparator 0 x" by (simp add: openItem_def)
  then have "foldl split_step \<lparr>parts = P, current = C, parenDepth = 0\<rparr> x
      = \<lparr>parts = P, current = C @ x, parenDepth = depthAfter 0 x\<rparr>"
    by (rule scan_noSeparator)
  with Nil.prems(3) show ?case by auto
next
  case (Cons y ys)
  from Cons.prems(1) have cx: "closedItem x" by simp
  then have nx: "noSeparator 0 x" and dx: "depthAfter 0 x = 0" and tx: "trim x = x"
    by (simp_all add: closedItem_def)
  have rest1: "\<forall>z\<in>set (butlast (y # ys)). closedItem z" using Cons.prems(1) by simp
  have rest2: "openItem (last (y # ys))" using Cons.prems(2) by simp
  have sp: "\<forall>c\<in>set '' ''. isWhiteSpace c" by simp
  have a: "foldl split_step \<lparr>parts = P, current = C, parenDepth = 0\<rparr> x
      = \<lparr>parts = P, current = C @ x, parenDepth = 0\<rparr>"
    using scan_noSeparator [OF nx, of P C] dx by simp
  have b: "split_step \<lparr>parts = P, current = C @ x, parenDepth = 0\<rparr> (CHR '','')
      = \<lparr>parts = P @ [x], current = [], parenDepth = 0\<rparr>"
    using Cons.prems(3) tx by (simp add: split_step_comma trim_ws_prefix)
  have c: "split_step \<lparr>parts = P @ [x], current = [], parenDepth = 0\<rparr> (CHR '' '')
      = \<lparr>parts = P @ [x], current = '' '', parenDepth = 0\<rparr>"
    by (simp add: split_step_other)
  obtain C' where ws: "\<forall>c\<in>set C'. isWhiteSpace c"
    and d: "foldl split_step \<lparr>parts = P @ [x], current = '' '', parenDepth = 0\<rparr>
              (join '', '' (y # ys))
          = \<lparr>parts = (P @ [x]) @ butlast (y # ys), current = C' @ last (y # ys),
             parenDepth = depthAfter 0 (last (y # ys))\<rparr>"
    using Cons.IH [OF rest1 rest2 sp] by blast
  have "foldl split_step \<lparr>parts = P, current = C, parenDepth = 0\<rparr> (join '', '' (x # y # ys))
      = foldl split_step (foldl split_step \<lparr>parts = P, current = C, parenDepth = 0\<rparr> x)
          ('', '' @ join '', '' (y # ys))"
    by simp
  also have "\<dots> = foldl split_step \<lparr>parts = P @ [x], current = '' '', parenDepth = 0\<rparr>
          (join '', '' (y # ys))"
    by (simp add: a b c)
  also have "\<dots> = \<lparr>parts = P @ butlast (x # y # ys), current = C' @ last (x # y # ys),
             parenDepth = depthAfter 0 (last (x # y # ys))\<rparr>"
    using d by simp
  finally show ?case using ws by blast
qed

lemma rejoin_items:
  assumes "\<forall>x\<in>set (butlast xs). closedItem x" and "xs \<noteq> [] \<longrightarrow> openItem (last xs) \<and> last xs \<noteq> []"
  shows "splitTopLevel (join '', '' xs) = xs"
proof (cases xs)
  case Nil
  then show ?thesis
    by (simp add: splitTopLevel_def split_finish_def split_init_def)
next
  case (Cons x ys)
  with assms have a: "\<forall>z\<in>set (butlast (x # ys)). closedItem z"
    and b: "openItem (last (x # ys))" and ne: "last (x # ys) \<noteq> []"
    by simp_all
  have e: "\<forall>c\<in>set []. isWhiteSpace c" by simp
  obtain C' where ws: "\<forall>c\<in>set C'. isWhiteSpace c"
    and sc: "foldl split_step \<lparr>parts = [], current = [], parenDepth = 0\<rparr> (join '', '' (x # ys))
          = \<lparr>parts = [] @ butlast (x # ys), current = C' @ last (x # ys),
             parenDepth = depthAfter 0 (last (x # ys))\<rparr>"
    using rejoin_scan [OF a b e] by blast
  have "trim (C' @ last (x # ys)) = last (x # ys)"
    using ws b by (simp add: trim_ws_prefix openItem_def)
  then have "splitTopLevel (join '', '' (x # ys)) = butlast (x # ys) @ [last (x # ys)]"
    using sc ne by (simp add: splitTopLevel_def split_finish_def split_init_def)
  then show ?thesis using Cons by simp
qed

text \<open>
  For every expression, balanced or not, whose split does not end in an empty item,
  the items come back from joining and splitting again.
\<close>

lemma splitTopLevel_roundtrip:
  assumes "splitTopLevel s \<noteq> [] \<longrightarrow> last (splitTopLevel s) \<noteq> []"
  shows "splitTopLevel (join '', '' (splitTopLevel s)) = splitTopLevel s"
  using assms splitTopLevel_items [of s] by (intro rejoin_items) auto

end
